theory Spec2Isabelle
  imports Main "HOL-Library.Code_Target_Nat"
begin

section \<open>Python values the service handles\<close>

text \<open>
  A Python \<open>str\<close> is a sequence of Unicode code points; it is modelled as the list of
  its code points, so that \<open>strip\<close>, \<open>lower\<close> and \<open>int\<close> see what Python sees.
  The messages of the service are Chinese text: each fixed message is a constant whose
  value is the code points of the literal in the source.
\<close>

type_synonym pystr = "nat list"

definition ascii :: "string \<Rightarrow> pystr" where
  "ascii s = map of_char s"

text \<open>
  What the interpreter knows and the source does not say: the Unicode tables behind
  \<open>str.lower\<close>, \<open>str.upper\<close>, \<open>str.isdigit\<close> and \<open>int\<close> for code points beyond
  ASCII, and the limit on the number of digits \<open>int\<close> converts (0 for no limit).
  They are parameters; on ASCII text the functions below do not consult them.
\<close>

record py_runtime =
  unicode_lower :: "pystr \<Rightarrow> pystr"
  unicode_upper :: "pystr \<Rightarrow> pystr"
  unicode_decimal :: "nat \<Rightarrow> nat option"
  unicode_isdigit :: "nat \<Rightarrow> bool"
  int_max_str_digits :: nat

definition is_ascii :: "pystr \<Rightarrow> bool" where
  "is_ascii s = (\<forall>c \<in> set s. c < 128)"

definition ascii_lower :: "nat \<Rightarrow> nat" where
  "ascii_lower c = (if 65 \<le> c \<and> c \<le> 90 then c + 32 else c)"

definition ascii_upper :: "nat \<Rightarrow> nat" where
  "ascii_upper c = (if 97 \<le> c \<and> c \<le> 122 then c - 32 else c)"

definition py_lower :: "py_runtime \<Rightarrow> pystr \<Rightarrow> pystr" where
  "py_lower rt s = (if is_ascii s then map ascii_lower s else unicode_lower rt s)"

definition py_upper :: "py_runtime \<Rightarrow> pystr \<Rightarrow> pystr" where
  "py_upper rt s = (if is_ascii s then map ascii_upper s else unicode_upper rt s)"

definition py_isspace :: "nat \<Rightarrow> bool" where
  \<comment> \<open>the code points \<open>str.strip()\<close> removes\<close>
  "py_isspace c =
     ((9 \<le> c \<and> c \<le> 13) \<or> (28 \<le> c \<and> c \<le> 32) \<or> c = 133 \<or> c = 160 \<or> c = 5760
      \<or> (8192 \<le> c \<and> c \<le> 8202) \<or> c = 8232 \<or> c = 8233 \<or> c = 8239 \<or> c = 8287
      \<or> c = 12288)"

definition py_strip :: "pystr \<Rightarrow> pystr" where
  "py_strip s = rev (dropWhile py_isspace (rev (dropWhile py_isspace s)))"

definition py_isdigit :: "py_runtime \<Rightarrow> pystr \<Rightarrow> bool" where
  "py_isdigit rt s =
     (s \<noteq> [] \<and> (\<forall>c \<in> set s. if c < 128 then 48 \<le> c \<and> c \<le> 57 else unicode_isdigit rt c))"

fun contains_at :: "pystr \<Rightarrow> pystr \<Rightarrow> bool" where
  "contains_at [] ys = True"
| "contains_at (x # xs) [] = False"
| "contains_at (x # xs) (y # ys) = (x = y \<and> contains_at xs ys)"

fun py_in :: "pystr \<Rightarrow> pystr \<Rightarrow> bool" where
  \<comment> \<open>\<open>needle in hay\<close> for strings\<close>
  "py_in needle [] = (needle = [])"
| "py_in needle (y # ys) = (contains_at needle (y # ys) \<or> py_in needle ys)"

subsection \<open>Integers as text\<close>

fun nat_digits :: "nat \<Rightarrow> pystr" where
  "nat_digits n = (if n < 10 then [48 + n] else nat_digits (n div 10) @ [48 + n mod 10])"

declare nat_digits.simps [simp del]

definition str_of_int :: "int \<Rightarrow> pystr" where
  \<comment> \<open>what an f-string writes for an \<open>int\<close>\<close>
  "str_of_int i = (if i < 0 then 45 # nat_digits (nat (- i)) else nat_digits (nat i))"

text \<open>
  \<open>int(s)\<close> for a string, base 10. The interpreter first rewrites a string that is not
  ASCII (a Unicode space becomes a blank, a Unicode decimal digit its ASCII digit, and the
  text is cut with a question mark at the first other code point from 127 on), then skips
  blanks, reads a sign, reads digits with single underscores between them, skips blanks and
  must be at the end. \<open>None\<close> is the \<open>ValueError\<close>.
\<close>

fun transform_decimal_and_space :: "py_runtime \<Rightarrow> pystr \<Rightarrow> pystr" where
  "transform_decimal_and_space rt [] = []"
| "transform_decimal_and_space rt (c # cs) =
     (if c < 127 then c # transform_decimal_and_space rt cs
      else if py_isspace c then 32 # transform_decimal_and_space rt cs
      else (case unicode_decimal rt c of
              None \<Rightarrow> [63]
            | Some d \<Rightarrow> (48 + d) # transform_decimal_and_space rt cs))"

definition c_isspace :: "nat \<Rightarrow> bool" where
  "c_isspace c = (c = 32 \<or> (9 \<le> c \<and> c \<le> 13))"

fun scan_digits :: "nat \<Rightarrow> pystr \<Rightarrow> nat list \<Rightarrow> (nat list \<times> nat \<times> pystr) option" where
  \<comment> \<open>previous character, text left, digits read so far; \<open>None\<close> at a double underscore\<close>
  "scan_digits prev [] ds = Some (ds, prev, [])"
| "scan_digits prev (c # cs) ds =
     (if c = 95 then (if prev = 95 then None else scan_digits c cs ds)
      else if 48 \<le> c \<and> c \<le> 57 then scan_digits c cs (ds @ [c - 48])
      else Some (ds, prev, c # cs))"

definition strip_sign :: "pystr \<Rightarrow> bool \<times> pystr" where
  "strip_sign s =
     (case s of
        [] \<Rightarrow> (False, [])
      | c # cs \<Rightarrow> if c = 43 then (False, cs) else if c = 45 then (True, cs) else (False, s))"

definition int_of_str :: "py_runtime \<Rightarrow> pystr \<Rightarrow> int option" where
  "int_of_str rt s =
     (let t = (if is_ascii s then s else transform_decimal_and_space rt s);
          (neg, body) = strip_sign (dropWhile c_isspace t)
      in if body \<noteq> [] \<and> hd body = 95 then None
         else (case scan_digits 0 body [] of
                 None \<Rightarrow> None
               | Some (ds, prev, rest) \<Rightarrow>
                   if prev = 95 \<or> ds = [] \<or> dropWhile c_isspace rest \<noteq> [] then None
                   else if 640 < length ds \<and> 0 < int_max_str_digits rt
                           \<and> int_max_str_digits rt < length ds then None
                   else Some ((if neg then - 1 else 1)
                              * foldl (\<lambda>a d. 10 * a + int d) 0 ds)))"

text \<open>
  The values a handler or a builder can be given where the source tests the type:
  an \<open>int\<close> or a \<open>str\<close>.
\<close>

datatype pyval = PInt int | PStr pystr

definition py_int :: "py_runtime \<Rightarrow> pyval \<Rightarrow> int option" where
  \<comment> \<open>\<open>int(v)\<close>; \<open>None\<close> is the \<open>ValueError\<close>\<close>
  "py_int rt v = (case v of PInt i \<Rightarrow> Some i | PStr s \<Rightarrow> int_of_str rt s)"

definition py_str :: "pyval \<Rightarrow> pystr" where
  \<comment> \<open>what an f-string writes for the value\<close>
  "py_str v = (case v of PInt i \<Rightarrow> str_of_int i | PStr s \<Rightarrow> s)"

definition truthy :: "pystr option \<Rightarrow> bool" where
  \<comment> \<open>\<open>if x:\<close> for a value that is \<open>None\<close> or a string\<close>
  "truthy x = (case x of None \<Rightarrow> False | Some s \<Rightarrow> s \<noteq> [])"

section \<open>Messages\<close>

definition msg_command_ok :: pystr where
  \<comment> \<open>the success phrase of run_command (source line 140)\<close>
  "msg_command_ok = [21629, 20196, 25104, 21151, 25191, 34892, 12290]"

definition msg_unknown_error_pre :: pystr where
  \<comment> \<open>text before the return code in the last fallback (line 142); the closing bracket follows the code\<close>
  "msg_unknown_error_pre = [26410, 30693, 38169, 35823, 32, 40, 36820, 22238, 30721, 58, 32]"

definition msg_command_error_pre :: pystr where
  \<comment> \<open>prefix of every failure message of a finished command (line 144)\<close>
  "msg_command_error_pre = [25191, 34892, 21629, 20196, 20986, 38169, 58, 32]"

definition msg_exe_err_pre :: pystr where
  \<comment> \<open>text before the executable's name (line 147)\<close>
  "msg_exe_err_pre = [38169, 35823, 65306, 21487, 25191, 34892, 25991, 20214, 32, 39]"

definition msg_exe_err_post :: pystr where
  \<comment> \<open>text after the executable's name: quote, space, 'not found', full stop (lines 147, 160, 187)\<close>
  "msg_exe_err_post = [39, 32, 26410, 25214, 21040, 12290]"

definition msg_timeout :: pystr where
  \<comment> \<open>the timeout message (line 151)\<close>
  "msg_timeout = [21629, 20196, 25191, 34892, 36229, 26102, 12290]"

definition msg_unexpected_pre :: pystr where
  \<comment> \<open>prefix of the catch-all message (line 154)\<close>
  "msg_unexpected_pre = [21457, 29983, 24847, 22806, 38169, 35823, 58, 32]"

definition msg_twinkle_pre :: pystr where
  \<comment> \<open>'Twinkle Tray', the words for 'executable file' and an opening quote (lines 160, 187)\<close>
  "msg_twinkle_pre = [84, 119, 105, 110, 107, 108, 101, 32, 84, 114, 97, 121, 32, 21487, 25191, 34892, 25991, 20214, 32, 39]"

definition msg_monitor_positive :: pystr where
  \<comment> \<open>'the monitor number must be a positive integer' (lines 162, 320)\<close>
  "msg_monitor_positive = [26174, 31034, 22120, 32534, 21495, 24517, 39035, 26159, 19968, 20010, 27491, 25972, 25968, 12290]"

definition msg_level_invalid :: pystr where
  \<comment> \<open>'the brightness must be an integer from 0 to 100' (line 189)\<close>
  "msg_level_invalid = [20142, 24230, 20540, 24517, 39035, 26159, 32, 48, 32, 21040, 32, 49, 48, 48, 32, 20043, 38388, 30340, 25972, 25968, 12290]"

definition msg_monitor_negative :: pystr where
  \<comment> \<open>'the monitor number cannot be negative' (line 198)\<close>
  "msg_monitor_negative = [26174, 31034, 22120, 32534, 21495, 19981, 33021, 20026, 36127, 25968, 12290]"

definition msg_bad_monitor_pre :: pystr where
  \<comment> \<open>text before the rejected selector (line 203)\<close>
  "msg_bad_monitor_pre = [26080, 25928, 30340, 26174, 31034, 22120, 32534, 21495, 58, 32, 39]"

definition msg_bad_monitor_post :: pystr where
  \<comment> \<open>text after the rejected selector (line 203)\<close>
  "msg_bad_monitor_post = [39, 12290, 24212, 20026, 27491, 25972, 25968, 44, 32, 48, 44, 32, 25110, 32, 39, 97, 108, 108, 39, 12290]"

section \<open>Configuration and command builders\<close>

text \<open>
  The module-level state the handlers read: the path of the monitor-control executable and
  whether start-up found it, and the authentication settings. \<open>which\<close> is
  \<open>shutil.which\<close>, the search of the executable on the search path.
\<close>

record config =
  twinkle_tray_base_path :: pystr
  twinkle_tray_base_path_found :: bool
  API_AUTH_ENABLED :: bool
  EXPECTED_API_KEY :: pystr

type_synonym which_fn = "pystr \<Rightarrow> pystr option"

definition executable_missing :: "config \<Rightarrow> which_fn \<Rightarrow> bool" where
  \<comment> \<open>\<open>not twinkle_tray_base_path_found and not shutil.which(twinkle_tray_base_path)\<close>\<close>
  "executable_missing cfg which =
     (\<not> twinkle_tray_base_path_found cfg \<and> \<not> truthy (which (twinkle_tray_base_path cfg)))"

definition twinkle_not_found_msg :: "config \<Rightarrow> pystr" where
  "twinkle_not_found_msg cfg = msg_twinkle_pre @ twinkle_tray_base_path cfg @ msg_exe_err_post"

text \<open>
  A builder returns the pair \<open>(command_parts, error)\<close> of the source: the argument list or
  \<open>None\<close>, and the error message or \<open>None\<close>.
\<close>

type_synonym build_result = "pystr list option \<times> pystr option"

definition get_twinkle_power_command_parts ::
  "config \<Rightarrow> which_fn \<Rightarrow> pyval \<Rightarrow> pystr \<Rightarrow> build_result" where
  "get_twinkle_power_command_parts cfg which monitor_num power_state_vcp =
     (if executable_missing cfg which then (None, Some (twinkle_not_found_msg cfg))
      else (case monitor_num of
              PStr s \<Rightarrow> (None, Some msg_monitor_positive)
            | PInt n \<Rightarrow>
                if n \<le> 0 then (None, Some msg_monitor_positive)
                else (Some [twinkle_tray_base_path cfg,
                            ascii ''--MonitorNum='' @ str_of_int n,
                            ascii ''--VCP='' @ power_state_vcp], None)))"

definition vcp_power_on :: pystr where
  "vcp_power_on = ascii ''0xD6:1''"

definition vcp_power_off :: pystr where
  "vcp_power_off = ascii ''0xD6:5''"

definition get_twinkle_brightness_command_parts ::
  "py_runtime \<Rightarrow> config \<Rightarrow> which_fn \<Rightarrow> pyval \<Rightarrow> pyval \<Rightarrow> build_result" where
  "get_twinkle_brightness_command_parts rt cfg which monitor_num_input brightness_level =
     (if executable_missing cfg which then (None, Some (twinkle_not_found_msg cfg))
      else (case brightness_level of
              PStr s \<Rightarrow> (None, Some msg_level_invalid)
            | PInt l \<Rightarrow>
                if \<not> (0 \<le> l \<and> l \<le> 100) then (None, Some msg_level_invalid)
                else (case py_int rt monitor_num_input of
                        Some monitor_num \<Rightarrow>
                          if monitor_num = 0 then
                            (Some [twinkle_tray_base_path cfg, ascii ''--AllMonitors'',
                                   ascii ''--Set='' @ str_of_int l], None)
                          else if monitor_num > 0 then
                            (Some [twinkle_tray_base_path cfg,
                                   ascii ''--MonitorNum='' @ str_of_int monitor_num,
                                   ascii ''--Set='' @ str_of_int l], None)
                          else (None, Some msg_monitor_negative)
                      | None \<Rightarrow>
                          if py_lower rt (py_str monitor_num_input) = ascii ''all'' then
                            (Some [twinkle_tray_base_path cfg, ascii ''--AllMonitors'',
                                   ascii ''--Set='' @ str_of_int l], None)
                          else (None, Some (msg_bad_monitor_pre @ py_str monitor_num_input
                                            @ msg_bad_monitor_post)))))"

section \<open>Process executor\<close>

text \<open>
  Exceptions are values: the class the \<open>except\<close> clauses of the source tell apart, and
  the text \<open>str(e)\<close>. \<open>OtherException\<close> stands for every other subclass of
  \<open>Exception\<close>.
\<close>

datatype exn_class = FileNotFoundError | TimeoutExpired | AttributeError | ValueError
  | OtherException

datatype pyexn = Exn exn_class pystr

text \<open>
  What the operating system answers. \<open>subprocess.Popen\<close> raises or starts the child;
  for a started child, \<open>communicate(timeout=15)\<close> returns the captured standard output,
  the captured standard error and the return code, or raises (\<open>TimeoutExpired\<close> when the
  child is still running after 15 seconds).
\<close>

datatype comm_result = CommReturns pystr pystr int | CommRaises pyexn

datatype popen_result = Started comm_result | PopenRaises pyexn

text \<open>
  How a call ends: it returns a value or raises. The same type is the result of
  \<open>run_command\<close> itself, whose caller gets a pair or the exception that left it.
\<close>

datatype 'a call = Returns 'a | Raises pyexn

text \<open>
  The host also answers the two calls of the timeout handler, for the child that was started
  with the given command: \<open>process.kill()\<close> and the \<open>process.communicate()\<close>
  without timeout that reads what is left in the pipes (its value is discarded; it raises,
  for example, \<open>UnicodeDecodeError\<close> when the output read is not UTF-8).
\<close>

record host =
  subprocess_CREATE_NO_WINDOW :: "int option"
  which :: which_fn
  popen :: "pystr list \<Rightarrow> int \<Rightarrow> popen_result"
  process_kill :: "pystr list \<Rightarrow> unit call"
  process_communicate :: "pystr list \<Rightarrow> unit call"

text \<open>
  The calls \<open>run_command\<close> makes on the child, in order: \<open>Popen\<close> with the argument
  list and the creation flags, \<open>communicate\<close> with its timeout (\<open>None\<close> for the call
  without one), \<open>kill\<close>. Log lines are not modelled here.
\<close>

datatype proc_event = Popen "pystr list" int | Communicate "nat option" | Kill

type_synonym exec_result = "(bool \<times> pystr) call \<times> proc_event list"

definition creationflags_for :: "py_runtime \<Rightarrow> host \<Rightarrow> pystr \<Rightarrow> int" where
  \<comment> \<open>source lines 132 to 134: \<open>getattr(subprocess, 'CREATE_NO_WINDOW', 0)\<close> for powershell, else 0\<close>
  "creationflags_for rt h exe =
     (if py_lower rt exe = ascii ''powershell''
      then (case subprocess_CREATE_NO_WINDOW h of Some f \<Rightarrow> f | None \<Rightarrow> 0)
      else 0)"

definition timeout_cleanup :: "host \<Rightarrow> pystr list \<Rightarrow> exec_result" where
  \<comment> \<open>source lines 150 and 151 with the child bound: \<open>process.kill(); process.communicate()\<close>
      and the \<open>return\<close>. The two calls stand in an \<open>except\<close> clause, so no clause of the
      same \<open>try\<close> catches what they raise: it leaves \<open>run_command\<close>.\<close>
  "timeout_cleanup h cmd =
     (case process_kill h cmd of
        Raises e \<Rightarrow> (Raises e, [Kill])
      | Returns u \<Rightarrow>
          (case process_communicate h cmd of
             Raises e \<Rightarrow> (Raises e, [Kill, Communicate None])
           | Returns v \<Rightarrow> (Returns (False, msg_timeout), [Kill, Communicate None])))"

definition except_clauses :: "host \<Rightarrow> bool \<Rightarrow> pystr \<Rightarrow> pystr list \<Rightarrow> pyexn \<Rightarrow> exec_result" where
  \<comment> \<open>source lines 145 to 154 for the command \<open>exe # args\<close>; \<open>process_bound\<close> is
      \<open>'process' in locals() and process\<close>\<close>
  "except_clauses h process_bound exe args e =
     (case e of Exn cls text \<Rightarrow>
        (case cls of
           FileNotFoundError \<Rightarrow>
             (Returns (False, msg_exe_err_pre @ exe @ msg_exe_err_post), [])
         | TimeoutExpired \<Rightarrow>
             if process_bound then timeout_cleanup h (exe # args)
             else (Returns (False, msg_timeout), [])
         | _ \<Rightarrow> (Returns (False, msg_unexpected_pre @ text), [])))"

definition after_exit :: "pystr \<Rightarrow> pystr \<Rightarrow> int \<Rightarrow> bool \<times> pystr" where
  \<comment> \<open>source lines 138 to 144\<close>
  "after_exit stdout stderr returncode =
     (if returncode = 0 then
        (True, if py_strip stdout \<noteq> [] then py_strip stdout else msg_command_ok)
      else
        (let error_message =
               (if py_strip stderr \<noteq> [] then py_strip stderr
                else if py_strip stdout \<noteq> [] then py_strip stdout
                else msg_unknown_error_pre @ str_of_int returncode @ ascii '')'')
         in (False, msg_command_error_pre @ error_message)))"

definition run_command :: "py_runtime \<Rightarrow> host \<Rightarrow> pystr list option \<Rightarrow> exec_result" where
  "run_command rt h command_parts =
     (case command_parts of
        None \<Rightarrow>
          \<comment> \<open>\<open>command_parts[0]\<close> raises TypeError, caught by \<open>except Exception\<close>\<close>
          (Returns (False, msg_unexpected_pre @ [39] @ ascii ''NoneType'' @ [39]
                           @ ascii '' object is not subscriptable''), [])
      | Some [] \<Rightarrow>
          \<comment> \<open>\<open>command_parts[0]\<close> raises IndexError, caught by \<open>except Exception\<close>\<close>
          (Returns (False, msg_unexpected_pre @ ascii ''list index out of range''), [])
      | Some (exe # args) \<Rightarrow>
          (let creationflags = creationflags_for rt h exe;
               started = [Popen (exe # args) creationflags]
           in case popen h (exe # args) creationflags of
                PopenRaises e \<Rightarrow>
                  (case except_clauses h False exe args e of
                     (r, evs) \<Rightarrow> (r, started @ evs))
              | Started comm \<Rightarrow>
                  (case comm of
                     CommRaises e \<Rightarrow>
                       (case except_clauses h True exe args e of
                          (r, evs) \<Rightarrow> (r, started @ [Communicate (Some 15)] @ evs))
                   | CommReturns stdout stderr returncode \<Rightarrow>
                       (Returns (after_exit stdout stderr returncode),
                        started @ [Communicate (Some 15)]))))"

section \<open>Responses and the authentication guard\<close>

text \<open>
  A handler returns \<open>jsonify(dict), code\<close>: the JSON object as its key and value pairs
  and the HTTP status code. \<open>abort\<close> ends the request with an error page of the web
  framework (no JSON object of the service); an exception no handler catches (the
  \<open>ValueError\<close> of line 208, or one that left \<open>run_command\<close>) leaves the view function
  and is answered by the framework.
\<close>

datatype json = JStr pystr | JInt int | JBool bool | JNull

definition json_opt :: "pystr option \<Rightarrow> json" where
  "json_opt x = (case x of None \<Rightarrow> JNull | Some s \<Rightarrow> JStr s)"

type_synonym json_obj = "(string \<times> json) list"

datatype response = Json json_obj int | Abort int pystr | Unhandled exn_class

record request =
  X_API_Key :: "pystr option"

datatype auth = Granted | Denied int pystr

definition require_api_key :: "config \<Rightarrow> request \<Rightarrow> auth" where
  "require_api_key cfg req =
     (if API_AUTH_ENABLED cfg then
        (if \<not> truthy (X_API_Key req) then
           Denied 401 (ascii ''API key required. Please provide it in the '' @ [39]
                       @ ascii ''X-API-Key'' @ [39] @ ascii '' header.'')
         else if X_API_Key req \<noteq> Some (EXPECTED_API_KEY cfg) then
           Denied 403 (ascii ''Invalid API key.'')
         else Granted)
      else Granted)"

definition status_code :: "response \<Rightarrow> int" where
  \<comment> \<open>the status code on the wire; the framework answers an unhandled exception with 500\<close>
  "status_code r = (case r of Json obj c \<Rightarrow> c | Abort c d \<Rightarrow> c | Unhandled e \<Rightarrow> 500)"

definition status_field :: "response \<Rightarrow> json option" where
  \<comment> \<open>the top-level \<open>status\<close> field of a JSON response\<close>
  "status_field r = (case r of Json obj c \<Rightarrow> map_of obj ''status'' | _ \<Rightarrow> None)"

definition json_field :: "string \<Rightarrow> response \<Rightarrow> json option" where
  \<comment> \<open>a top-level field of a JSON response\<close>
  "json_field k r = (case r of Json obj c \<Rightarrow> map_of obj k | _ \<Rightarrow> None)"

definition is_json :: "response \<Rightarrow> bool" where
  "is_json r = (case r of Json obj c \<Rightarrow> True | _ \<Rightarrow> False)"

section \<open>Monitor endpoints\<close>

definition msg_on_ok :: pystr where
  \<comment> \<open>line 171\<close>
  "msg_on_ok = [26174, 31034, 22120, 24050, 36890, 36807, 32, 86, 67, 80, 32, 21629, 20196, 25171, 24320, 12290]"

definition msg_on_fail :: pystr where
  \<comment> \<open>line 172\<close>
  "msg_on_fail = [36890, 36807, 32, 86, 67, 80, 32, 21629, 20196, 25171, 24320, 26174, 31034, 22120, 22833, 36133, 12290]"

definition msg_off_ok :: pystr where
  \<comment> \<open>line 180\<close>
  "msg_off_ok = [26174, 31034, 22120, 24050, 36890, 36807, 32, 86, 67, 80, 32, 21629, 20196, 20851, 38381, 47, 24453, 26426, 12290]"

definition msg_off_fail :: pystr where
  \<comment> \<open>line 181\<close>
  "msg_off_fail = [36890, 36807, 32, 86, 67, 80, 32, 21629, 20196, 20851, 38381, 47, 24453, 26426, 26174, 31034, 22120, 22833, 36133, 12290]"

definition msg_monitor_word :: pystr where
  \<comment> \<open>'monitor' and a space (line 208)\<close>
  "msg_monitor_word = [26174, 31034, 22120, 32]"

definition msg_all_monitors :: pystr where
  \<comment> \<open>'all monitors' (line 208)\<close>
  "msg_all_monitors = [25152, 26377, 26174, 31034, 22120]"

definition msg_brightness_set_mid :: pystr where
  \<comment> \<open>line 217, between target and level\<close>
  "msg_brightness_set_mid = [32, 20142, 24230, 24050, 35774, 32622, 20026, 32]"

definition msg_percent_stop :: pystr where
  \<comment> \<open>line 217, after the level\<close>
  "msg_percent_stop = [37, 12290]"

definition msg_set_word :: pystr where
  \<comment> \<open>line 218, before the target\<close>
  "msg_set_word = [35774, 32622, 32]"

definition msg_brightness_to :: pystr where
  \<comment> \<open>line 218, between target and level\<close>
  "msg_brightness_to = [32, 20142, 24230, 20026, 32]"

definition msg_percent_fail :: pystr where
  \<comment> \<open>line 218, after the level\<close>
  "msg_percent_fail = [37, 32, 22833, 36133, 12290]"

definition msg_placeholder :: pystr where
  \<comment> \<open>line 321\<close>
  "msg_placeholder = [27492, 25509, 21475, 20026, 29366, 24577, 26597, 35810, 21344, 20301, 31526, 12290]"

type_synonym monitor_result = "response \<times> proc_event list"

definition monitor_on_vcp ::
  "py_runtime \<Rightarrow> config \<Rightarrow> host \<Rightarrow> request \<Rightarrow> int \<Rightarrow> monitor_result" where
  "monitor_on_vcp rt cfg h req monitor_num =
     (case require_api_key cfg req of
        Denied c d \<Rightarrow> (Abort c d, [])
      | Granted \<Rightarrow>
          (case get_twinkle_power_command_parts cfg (which h) (PInt monitor_num) vcp_power_on of
             (command_parts, error) \<Rightarrow>
               if truthy error then
                 (Json [(''status'', JStr (ascii ''error'')), (''message'', json_opt error)] 400, [])
               else
                 (case run_command rt h command_parts of
                    (Raises e, evs) \<Rightarrow> (case e of Exn cls text \<Rightarrow> (Unhandled cls, evs))
                  | (Returns (success, message), evs) \<Rightarrow>
                      if success then
                        (Json [(''status'', JStr (ascii ''success'')),
                               (''monitor_num'', JInt monitor_num),
                               (''action'', JStr (ascii ''MONITOR_ON_VCP'')),
                               (''message'', JStr msg_on_ok),
                               (''details'', JStr message)] 200, evs)
                      else
                        (Json [(''status'', JStr (ascii ''error'')),
                               (''monitor_num'', JInt monitor_num),
                               (''action'', JStr (ascii ''MONITOR_ON_VCP'')),
                               (''message'', JStr msg_on_fail),
                               (''details'', JStr message)] 500, evs))))"

definition monitor_off_vcp ::
  "py_runtime \<Rightarrow> config \<Rightarrow> host \<Rightarrow> request \<Rightarrow> int \<Rightarrow> monitor_result" where
  "monitor_off_vcp rt cfg h req monitor_num =
     (case require_api_key cfg req of
        Denied c d \<Rightarrow> (Abort c d, [])
      | Granted \<Rightarrow>
          (case get_twinkle_power_command_parts cfg (which h) (PInt monitor_num) vcp_power_off of
             (command_parts, error) \<Rightarrow>
               if truthy error then
                 (Json [(''status'', JStr (ascii ''error'')), (''message'', json_opt error)] 400, [])
               else
                 (case run_command rt h command_parts of
                    (Raises e, evs) \<Rightarrow> (case e of Exn cls text \<Rightarrow> (Unhandled cls, evs))
                  | (Returns (success, message), evs) \<Rightarrow>
                      if success then
                        (Json [(''status'', JStr (ascii ''success'')),
                               (''monitor_num'', JInt monitor_num),
                               (''action'', JStr (ascii ''MONITOR_OFF_VCP'')),
                               (''message'', JStr msg_off_ok),
                               (''details'', JStr message)] 200, evs)
                      else
                        (Json [(''status'', JStr (ascii ''error'')),
                               (''monitor_num'', JInt monitor_num),
                               (''action'', JStr (ascii ''MONITOR_OFF_VCP'')),
                               (''message'', JStr msg_off_fail),
                               (''details'', JStr message)] 500, evs))))"

definition target_description_of :: "py_runtime \<Rightarrow> pystr \<Rightarrow> exn_class + pystr" where
  \<comment> \<open>source line 208; \<open>int\<close> is only called when \<open>isdigit\<close> holds, and its
      \<open>ValueError\<close> is not caught\<close>
  "target_description_of rt monitor_num_str =
     (if py_isdigit rt monitor_num_str then
        (case int_of_str rt monitor_num_str of
           None \<Rightarrow> Inl ValueError
         | Some n \<Rightarrow> Inr (if n > 0 then msg_monitor_word @ monitor_num_str else msg_all_monitors))
      else Inr msg_all_monitors)"

definition set_monitor_brightness ::
  "py_runtime \<Rightarrow> config \<Rightarrow> host \<Rightarrow> request \<Rightarrow> pystr \<Rightarrow> int \<Rightarrow> monitor_result" where
  "set_monitor_brightness rt cfg h req monitor_num_str level =
     (case require_api_key cfg req of
        Denied c d \<Rightarrow> (Abort c d, [])
      | Granted \<Rightarrow>
          (case target_description_of rt monitor_num_str of
             Inl e \<Rightarrow> (Unhandled e, [])
           | Inr target_description \<Rightarrow>
               (case get_twinkle_brightness_command_parts rt cfg (which h)
                       (PStr monitor_num_str) (PInt level) of
                  (command_parts, error) \<Rightarrow>
                    if truthy error then
                      (Json [(''status'', JStr (ascii ''error'')),
                             (''message'', json_opt error)] 400, [])
                    else
                      (case run_command rt h command_parts of
                         (Raises e, evs) \<Rightarrow>
                           (case e of Exn cls text \<Rightarrow> (Unhandled cls, evs))
                       | (Returns (success, message), evs) \<Rightarrow>
                           if success then
                             (Json [(''status'', JStr (ascii ''success'')),
                                    (''target'', JStr target_description),
                                    (''brightness_level'', JInt level),
                                    (''message'', JStr (target_description
                                        @ msg_brightness_set_mid @ str_of_int level
                                        @ msg_percent_stop)),
                                    (''details'', JStr message)] 200, evs)
                           else
                             (Json [(''status'', JStr (ascii ''error'')),
                                    (''target'', JStr target_description),
                                    (''brightness_level'', JInt level),
                                    (''message'', JStr (msg_set_word @ target_description
                                        @ msg_brightness_to @ str_of_int level
                                        @ msg_percent_fail)),
                                    (''details'', JStr message)] 500, evs)))))"

definition monitor_status_placeholder :: "config \<Rightarrow> request \<Rightarrow> int \<Rightarrow> response" where
  "monitor_status_placeholder cfg req monitor_num =
     (case require_api_key cfg req of
        Denied c d \<Rightarrow> Abort c d
      | Granted \<Rightarrow>
          if monitor_num \<le> 0 then
            Json [(''status'', JStr (ascii ''error'')),
                  (''message'', JStr msg_monitor_positive)] 400
          else
            Json [(''status'', JStr (ascii ''info'')),
                  (''monitor_num'', JInt monitor_num),
                  (''message'', JStr msg_placeholder)] 200)"

section \<open>Audio control\<close>

text \<open>
  Which optional modules the start-up imported: \<open>pythoncom\<close>, and the two names taken
  from \<open>pycaw\<close> (\<open>None\<close> in the source when the import failed).
\<close>

record modules =
  pythoncom_loaded :: bool
  AudioUtilities_loaded :: bool
  IAudioEndpointVolume_loaded :: bool

text \<open>
  The object a volume interface is in Python: which of the two mute methods it has, what
  they do when called, and the name of its type (it appears in the text of the
  \<open>AttributeError\<close> for a missing method).
\<close>

record endpoint_iface =
  type_name :: pystr
  has_SetMute :: bool
  has_GetMute :: bool
  GetMute :: "int call"
  SetMute :: "int \<Rightarrow> unit call"

text \<open>
  What the platform answers during one acquisition of the volume control:
  \<open>CoInitializeEx\<close> returns a value or raises,
  \<open>GetSpeakers\<close> returns a device (\<open>True\<close>) or a false value,
  \<open>Activate\<close> and \<open>QueryInterface\<close> return an object or \<open>None\<close>.
  The value \<open>CoInitializeEx\<close> returns is an integer where the binding hands the result
  code back (the source tests for 0, 1 and -2147417850), and \<open>None\<close> where the binding
  has no result value: \<open>pythoncom\<close> raises on a failure and returns \<open>None\<close> after it
  has initialized COM for the thread.
  A request that acquires the control twice gets one script for each acquisition.
\<close>

record com_script =
  CoInitializeEx :: "int option call"
  GetSpeakers :: "bool call"
  Activate :: "endpoint_iface option call"
  QueryInterface :: "endpoint_iface option call"
  CoUninitialize :: "unit call"

datatype log_level = LogDebug | LogInfo | LogWarning | LogError

text \<open>The calls on the platform and the log lines, in the order they happen.\<close>

datatype audio_event = CallCoInitializeEx | CallGetSpeakers | CallActivate | CallQueryInterface
  | CallCoUninitialize | CallGetMute | CallSetMute int | Log log_level

definition msg_pycaw_missing :: pystr where
  \<comment> \<open>line 223\<close>
  "msg_pycaw_missing = [112, 121, 99, 97, 119, 32, 24211, 25110, 20854, 24517, 35201, 32452, 20214, 26410, 21152, 36733, 12290]"

definition msg_com_init_failed_pre :: pystr where
  \<comment> \<open>line 234, before the exception's text\<close>
  "msg_com_init_failed_pre = [67, 79, 77, 32, 21021, 22987, 21270, 22833, 36133, 58, 32]"

definition msg_no_speakers :: pystr where
  \<comment> \<open>line 238\<close>
  "msg_no_speakers = [26410, 33021, 33719, 21462, 40664, 35748, 25196, 22768, 22120, 35774, 22791, 12290]"

definition msg_volume_attr_err_pre :: pystr where
  \<comment> \<open>line 247, before the exception's text\<close>
  "msg_volume_attr_err_pre = [33719, 21462, 20027, 38899, 37327, 25511, 21046, 26102, 20986, 38169, 32, 40, 65, 116, 116, 114, 105, 98, 117, 116, 101, 69, 114, 114, 111, 114, 41, 58, 32]"

definition msg_volume_err_pre :: pystr where
  \<comment> \<open>line 250, before the exception's text\<close>
  "msg_volume_err_pre = [33719, 21462, 20027, 38899, 37327, 25511, 21046, 26102, 20986, 38169, 58, 32]"

definition msg_no_interface :: pystr where
  \<comment> \<open>line 256\<close>
  "msg_no_interface = [26410, 33021, 25104, 21151, 28608, 27963, 20027, 38899, 37327, 25511, 21046, 25509, 21475, 12290]"

definition msg_mute_set_pre :: pystr where
  \<comment> \<open>line 265, before the state word\<close>
  "msg_mute_set_pre = [31995, 32479, 20027, 38899, 37327, 38745, 38899, 29366, 24577, 24050, 35774, 32622, 20026, 32]"

definition msg_muted_word :: pystr where
  \<comment> \<open>'muted' (lines 265, 305)\<close>
  "msg_muted_word = [38745, 38899]"

definition msg_unmuted_word :: pystr where
  \<comment> \<open>'unmuted' (lines 265, 305)\<close>
  "msg_unmuted_word = [21462, 28040, 38745, 38899]"

definition msg_full_stop :: pystr where
  \<comment> \<open>the ideographic full stop closing line 265\<close>
  "msg_full_stop = [12290]"

definition msg_set_mute_err_pre :: pystr where
  \<comment> \<open>line 268, before the exception's text\<close>
  "msg_set_mute_err_pre = [35774, 32622, 31995, 32479, 38745, 38899, 26102, 20986, 38169, 58, 32]"

definition msg_get_mute_ok :: pystr where
  \<comment> \<open>line 276\<close>
  "msg_get_mute_ok = [25104, 21151, 33719, 21462, 38745, 38899, 29366, 24577, 12290]"

definition msg_get_mute_err_pre :: pystr where
  \<comment> \<open>line 279, before the exception's text\<close>
  "msg_get_mute_err_pre = [33719, 21462, 31995, 32479, 38745, 38899, 29366, 24577, 26102, 20986, 38169, 58, 32]"

definition msg_audio_unavailable :: pystr where
  \<comment> \<open>lines 284, 293, 301, 311\<close>
  "msg_audio_unavailable = [38899, 39057, 25511, 21046, 21151, 33021, 19981, 21487, 29992, 32, 40, 112, 121, 99, 97, 119, 32, 26410, 21152, 36733, 41, 12290]"

definition msg_muted_ok :: pystr where
  \<comment> \<open>line 286\<close>
  "msg_muted_ok = [31995, 32479, 38899, 39057, 24050, 38745, 38899, 12290]"

definition msg_mute_fail :: pystr where
  \<comment> \<open>line 287\<close>
  "msg_mute_fail = [38745, 38899, 31995, 32479, 38899, 39057, 22833, 36133, 12290]"

definition msg_unmuted_ok :: pystr where
  \<comment> \<open>line 295\<close>
  "msg_unmuted_ok = [31995, 32479, 38899, 39057, 24050, 21462, 28040, 38745, 38899, 12290]"

definition msg_unmute_fail :: pystr where
  \<comment> \<open>line 296\<close>
  "msg_unmute_fail = [21462, 28040, 31995, 32479, 38899, 39057, 38745, 38899, 22833, 36133, 12290]"

definition msg_read_state_fail :: pystr where
  \<comment> \<open>line 303\<close>
  "msg_read_state_fail = [33719, 21462, 24403, 21069, 38745, 38899, 29366, 24577, 22833, 36133, 12290]"

definition msg_toggled_pre :: pystr where
  \<comment> \<open>line 305, before the state word\<close>
  "msg_toggled_pre = [31995, 32479, 38899, 39057, 38745, 38899, 29366, 24577, 24050, 20999, 25442, 20026, 58, 32]"

definition msg_toggle_fail :: pystr where
  \<comment> \<open>line 306\<close>
  "msg_toggle_fail = [20999, 25442, 31995, 32479, 38899, 39057, 38745, 38899, 22833, 36133, 12290]"

definition msg_status_ok :: pystr where
  \<comment> \<open>line 313\<close>
  "msg_status_ok = [25104, 21151, 33719, 21462, 38899, 39057, 29366, 24577, 12290]"

definition msg_status_fail :: pystr where
  \<comment> \<open>line 314\<close>
  "msg_status_fail = [33719, 21462, 38899, 39057, 29366, 24577, 22833, 36133, 12290]"

definition no_attribute :: "pystr \<Rightarrow> string \<Rightarrow> pyexn" where
  \<comment> \<open>the \<open>AttributeError\<close> of a method looked up on an object that lacks it\<close>
  "no_attribute tname attr =
     Exn AttributeError ([39] @ tname @ [39] @ ascii '' object has no attribute '' @ [39]
                         @ ascii attr @ [39])"

datatype com_init = ComReady bool | ComFailed pystr

definition com_initialize ::
  "py_runtime \<Rightarrow> modules \<Rightarrow> com_script \<Rightarrow> com_init \<times> audio_event list" where
  \<comment> \<open>source lines 224 to 234; \<open>ComReady b\<close> carries \<open>com_initialized_here\<close>\<close>
  "com_initialize rt m sc =
     (if \<not> pythoncom_loaded m then (ComReady False, [])
      else (case CoInitializeEx sc of
              Returns hr \<Rightarrow> (ComReady (hr = Some 0 \<or> hr = Some 1), [CallCoInitializeEx])
            | Raises e \<Rightarrow>
                (case e of Exn cls text \<Rightarrow>
                   if cls = AttributeError then (ComReady False, [CallCoInitializeEx])
                   else if \<not> py_in (ascii ''already initialized'') (py_lower rt text)
                           \<and> \<not> py_in (ascii ''RPC_E_CHANGED_MODE'') (py_upper rt text)
                   then (ComFailed (msg_com_init_failed_pre @ text),
                         [CallCoInitializeEx, Log LogError])
                   else (ComReady False, [CallCoInitializeEx]))))"

type_synonym acquired = "endpoint_iface option \<times> pystr option"

definition volume_except :: "pyexn \<Rightarrow> acquired \<times> audio_event list" where
  \<comment> \<open>source lines 245 to 250: \<open>master_volume\<close> stays \<open>None\<close>, \<open>error_message\<close> is set\<close>
  "volume_except e =
     (case e of Exn cls text \<Rightarrow>
        if cls = AttributeError then ((None, Some (msg_volume_attr_err_pre @ text)), [Log LogError])
        else ((None, Some (msg_volume_err_pre @ text)), [Log LogError]))"

definition activate_volume :: "com_script \<Rightarrow> acquired \<times> audio_event list" where
  \<comment> \<open>source lines 235 to 250: the pair \<open>(master_volume, error_message)\<close> after the
      \<open>try\<close> and its \<open>except\<close> clauses\<close>
  "activate_volume sc =
     (case GetSpeakers sc of
        Raises e \<Rightarrow> (case volume_except e of (r, evs) \<Rightarrow> (r, [CallGetSpeakers] @ evs))
      | Returns speakers \<Rightarrow>
          if \<not> speakers then ((None, Some msg_no_speakers), [CallGetSpeakers])
          else (case Activate sc of
                  Raises e \<Rightarrow>
                    (case volume_except e of
                       (r, evs) \<Rightarrow> (r, [CallGetSpeakers, CallActivate] @ evs))
                | Returns None \<Rightarrow>
                    (case volume_except (no_attribute (ascii ''NoneType'') ''QueryInterface'') of
                       (r, evs) \<Rightarrow> (r, [CallGetSpeakers, CallActivate] @ evs))
                | Returns (Some master_volume_interface) \<Rightarrow>
                    if has_SetMute master_volume_interface \<and> has_GetMute master_volume_interface
                    then ((Some master_volume_interface, None), [CallGetSpeakers, CallActivate])
                    else (case QueryInterface sc of
                            Raises e \<Rightarrow>
                              (case volume_except e of
                                 (r, evs) \<Rightarrow>
                                   (r, [CallGetSpeakers, CallActivate, CallQueryInterface] @ evs))
                          | Returns master_volume \<Rightarrow>
                              ((master_volume, None),
                               [CallGetSpeakers, CallActivate, CallQueryInterface]))))"

definition com_release :: "modules \<Rightarrow> com_script \<Rightarrow> bool \<Rightarrow> audio_event list" where
  \<comment> \<open>source lines 251 to 254, the \<open>finally\<close> clause\<close>
  "com_release m sc com_initialized_here =
     (if com_initialized_here \<and> pythoncom_loaded m then
        (case CoUninitialize sc of
           Returns u \<Rightarrow> [CallCoUninitialize]
         | Raises e_un \<Rightarrow> [CallCoUninitialize, Log LogWarning])
      else [])"

definition get_master_volume_control ::
  "py_runtime \<Rightarrow> modules \<Rightarrow> com_script \<Rightarrow> acquired \<times> audio_event list" where
  \<comment> \<open>\<open>_get_master_volume_control\<close> of the source\<close>
  "get_master_volume_control rt m sc =
     (if \<not> AudioUtilities_loaded m \<or> \<not> IAudioEndpointVolume_loaded m then
        ((None, Some msg_pycaw_missing), [])
      else (case com_initialize rt m sc of
              (ComFailed msg, evs0) \<Rightarrow> ((None, Some msg), evs0)
            | (ComReady com_initialized_here, evs0) \<Rightarrow>
                (case activate_volume sc of
                   ((master_volume, error_message), evs1) \<Rightarrow>
                     (let evs = evs0 @ evs1 @ com_release m sc com_initialized_here
                      in if truthy error_message then ((None, error_message), evs)
                         else if master_volume = None \<and> \<not> truthy error_message then
                           ((None, Some msg_no_interface), evs)
                         else ((master_volume, None), evs)))))"

definition call_SetMute :: "endpoint_iface option \<Rightarrow> int \<Rightarrow> unit call \<times> audio_event list" where
  \<comment> \<open>\<open>master_volume.SetMute(v, None)\<close>\<close>
  "call_SetMute master_volume v =
     (case master_volume of
        None \<Rightarrow> (Raises (no_attribute (ascii ''NoneType'') ''SetMute''), [])
      | Some i \<Rightarrow>
          if has_SetMute i then (SetMute i v, [CallSetMute v])
          else (Raises (no_attribute (type_name i) ''SetMute''), []))"

definition call_GetMute :: "endpoint_iface option \<Rightarrow> int call \<times> audio_event list" where
  \<comment> \<open>\<open>master_volume.GetMute()\<close>\<close>
  "call_GetMute master_volume =
     (case master_volume of
        None \<Rightarrow> (Raises (no_attribute (ascii ''NoneType'') ''GetMute''), [])
      | Some i \<Rightarrow>
          if has_GetMute i then (GetMute i, [CallGetMute])
          else (Raises (no_attribute (type_name i) ''GetMute''), []))"

definition set_system_mute ::
  "py_runtime \<Rightarrow> modules \<Rightarrow> com_script \<Rightarrow> bool \<Rightarrow> (bool \<times> pystr option) \<times> audio_event list" where
  "set_system_mute rt m sc mute_state =
     (case get_master_volume_control rt m sc of
        ((master_volume, error), evs) \<Rightarrow>
          if truthy error then ((False, error), evs)
          else (case call_SetMute master_volume (if mute_state then 1 else 0) of
                  (Returns u, evs1) \<Rightarrow>
                    ((True, Some (msg_mute_set_pre
                                  @ (if mute_state then msg_muted_word else msg_unmuted_word)
                                  @ msg_full_stop)),
                     evs @ evs1 @ [Log LogInfo])
                | (Raises e, evs1) \<Rightarrow>
                    (case e of Exn cls text \<Rightarrow>
                       ((False, Some (msg_set_mute_err_pre @ text)),
                        evs @ evs1 @ [Log LogError]))))"

definition get_system_mute_status ::
  "py_runtime \<Rightarrow> modules \<Rightarrow> com_script \<Rightarrow> (bool option \<times> pystr option) \<times> audio_event list" where
  "get_system_mute_status rt m sc =
     (case get_master_volume_control rt m sc of
        ((master_volume, error), evs) \<Rightarrow>
          if truthy error then ((None, error), evs)
          else (case call_GetMute master_volume of
                  (Returns muted, evs1) \<Rightarrow>
                    ((Some (muted \<noteq> 0), Some msg_get_mute_ok), evs @ evs1 @ [Log LogDebug])
                | (Raises e, evs1) \<Rightarrow>
                    (case e of Exn cls text \<Rightarrow>
                       ((None, Some (msg_get_mute_err_pre @ text)),
                        evs @ evs1 @ [Log LogError]))))"

text \<open>
  The audio endpoints. \<open>env k\<close> is the platform's script for the \<open>k\<close>-th acquisition of
  the volume control within the request, counted from 0.
\<close>

type_synonym audio_result = "response \<times> audio_event list"

definition unavailable :: "(string \<times> json) list \<Rightarrow> response" where
  \<comment> \<open>the 503 answer of an audio endpoint; \<open>extra\<close> is its \<open>action\<close> field, if any\<close>
  "unavailable extra =
     Json ([(''status'', JStr (ascii ''error''))] @ extra
           @ [(''message'', JStr msg_audio_unavailable)]) 503"

definition audio_mute ::
  "py_runtime \<Rightarrow> config \<Rightarrow> modules \<Rightarrow> (nat \<Rightarrow> com_script) \<Rightarrow> request \<Rightarrow> audio_result" where
  "audio_mute rt cfg m env req =
     (case require_api_key cfg req of
        Denied c d \<Rightarrow> (Abort c d, [])
      | Granted \<Rightarrow>
          if \<not> AudioUtilities_loaded m then
            (unavailable [(''action'', JStr (ascii ''MUTE''))], [])
          else (case set_system_mute rt m (env 0) True of
                  ((success, message), evs) \<Rightarrow>
                    if success then
                      (Json [(''status'', JStr (ascii ''success'')),
                             (''action'', JStr (ascii ''MUTE'')),
                             (''audio_muted'', JBool True),
                             (''message'', JStr msg_muted_ok),
                             (''details'', json_opt message)] 200, evs)
                    else
                      (Json [(''status'', JStr (ascii ''error'')),
                             (''action'', JStr (ascii ''MUTE'')),
                             (''message'', JStr msg_mute_fail),
                             (''details'', json_opt message)] 500, evs)))"

definition audio_unmute ::
  "py_runtime \<Rightarrow> config \<Rightarrow> modules \<Rightarrow> (nat \<Rightarrow> com_script) \<Rightarrow> request \<Rightarrow> audio_result" where
  "audio_unmute rt cfg m env req =
     (case require_api_key cfg req of
        Denied c d \<Rightarrow> (Abort c d, [])
      | Granted \<Rightarrow>
          if \<not> AudioUtilities_loaded m then
            (unavailable [(''action'', JStr (ascii ''UNMUTE''))], [])
          else (case set_system_mute rt m (env 0) False of
                  ((success, message), evs) \<Rightarrow>
                    if success then
                      (Json [(''status'', JStr (ascii ''success'')),
                             (''action'', JStr (ascii ''UNMUTE'')),
                             (''audio_muted'', JBool False),
                             (''message'', JStr msg_unmuted_ok),
                             (''details'', json_opt message)] 200, evs)
                    else
                      (Json [(''status'', JStr (ascii ''error'')),
                             (''action'', JStr (ascii ''UNMUTE'')),
                             (''message'', JStr msg_unmute_fail),
                             (''details'', json_opt message)] 500, evs)))"

definition audio_mute_toggle ::
  "py_runtime \<Rightarrow> config \<Rightarrow> modules \<Rightarrow> (nat \<Rightarrow> com_script) \<Rightarrow> request \<Rightarrow> audio_result" where
  "audio_mute_toggle rt cfg m env req =
     (case require_api_key cfg req of
        Denied c d \<Rightarrow> (Abort c d, [])
      | Granted \<Rightarrow>
          if \<not> AudioUtilities_loaded m then
            (unavailable [(''action'', JStr (ascii ''TOGGLE_MUTE''))], [])
          else (case get_system_mute_status rt m (env 0) of
                  ((None, msg), evs) \<Rightarrow>
                    (Json [(''status'', JStr (ascii ''error'')),
                           (''action'', JStr (ascii ''TOGGLE_MUTE'')),
                           (''message'', JStr msg_read_state_fail),
                           (''details'', json_opt msg)] 500, evs)
                | ((Some current_mute_state, msg), evs) \<Rightarrow>
                    (let new_mute_state = \<not> current_mute_state
                     in case set_system_mute rt m (env 1) new_mute_state of
                          ((success, message), evs') \<Rightarrow>
                            if success then
                              (Json [(''status'', JStr (ascii ''success'')),
                                     (''action'', JStr (ascii ''TOGGLE_MUTE'')),
                                     (''audio_muted'', JBool new_mute_state),
                                     (''message'', JStr (msg_toggled_pre
                                         @ (if new_mute_state then msg_muted_word
                                            else msg_unmuted_word))),
                                     (''details'', json_opt message)] 200, evs @ evs')
                            else
                              (Json [(''status'', JStr (ascii ''error'')),
                                     (''action'', JStr (ascii ''TOGGLE_MUTE'')),
                                     (''message'', JStr msg_toggle_fail),
                                     (''details'', json_opt message)] 500, evs @ evs'))))"

definition audio_status ::
  "py_runtime \<Rightarrow> config \<Rightarrow> modules \<Rightarrow> (nat \<Rightarrow> com_script) \<Rightarrow> request \<Rightarrow> audio_result" where
  "audio_status rt cfg m env req =
     (case require_api_key cfg req of
        Denied c d \<Rightarrow> (Abort c d, [])
      | Granted \<Rightarrow>
          if \<not> AudioUtilities_loaded m then (unavailable [], [])
          else (case get_system_mute_status rt m (env 0) of
                  ((Some muted, message), evs) \<Rightarrow>
                    (Json [(''status'', JStr (ascii ''success'')),
                           (''audio_muted'', JBool muted),
                           (''message'', JStr msg_status_ok),
                           (''details'', json_opt message)] 200, evs)
                | ((None, message), evs) \<Rightarrow>
                    (Json [(''status'', JStr (ascii ''error'')),
                           (''message'', JStr msg_status_fail),
                           (''details'', json_opt message)] 500, evs)))"

section \<open>Sample inputs\<close>

text \<open>Concrete runtimes, configurations, hosts and platform scripts the theorems are run on.\<close>

definition sample_runtime :: py_runtime where
  "sample_runtime =
     \<lparr>unicode_lower = (\<lambda>s. s), unicode_upper = (\<lambda>s. s), unicode_decimal = (\<lambda>c. None),
      unicode_isdigit = (\<lambda>c. False), int_max_str_digits = 4300\<rparr>"

definition sample_config :: config where
  \<comment> \<open>the defaults of the source: the bare file name, not found at start-up, no authentication\<close>
  "sample_config =
     \<lparr>twinkle_tray_base_path = ascii ''Twinkle Tray.exe'',
      twinkle_tray_base_path_found = False,
      API_AUTH_ENABLED = False,
      EXPECTED_API_KEY = ascii ''you_should_really_set_a_key_if_auth_is_enabled''\<rparr>"

definition on_search_path :: which_fn where
  "on_search_path p = Some (ascii ''C:/tools/'' @ p)"

definition not_on_search_path :: which_fn where
  "not_on_search_path p = None"

definition sample_host :: "which_fn \<Rightarrow> popen_result \<Rightarrow> host" where
  \<comment> \<open>a Windows host (\<open>CREATE_NO_WINDOW\<close> is \<open>0x08000000\<close>) whose every child behaves as
      given, and is killed and read to the end without an error\<close>
  "sample_host w r =
     \<lparr>subprocess_CREATE_NO_WINDOW = Some 134217728, which = w, popen = (\<lambda>c f. r),
      process_kill = (\<lambda>c. Returns ()), process_communicate = (\<lambda>c. Returns ())\<rparr>"



definition sample_request :: request where
  "sample_request = \<lparr>X_API_Key = None\<rparr>"

definition sample_modules :: modules where
  "sample_modules =
     \<lparr>pythoncom_loaded = True, AudioUtilities_loaded = True, IAudioEndpointVolume_loaded = True\<rparr>"

definition sample_iface :: "int call \<Rightarrow> endpoint_iface" where
  "sample_iface g =
     \<lparr>type_name = ascii ''POINTER(IAudioEndpointVolume)'', has_SetMute = True, has_GetMute = True,
      GetMute = g, SetMute = (\<lambda>v. Returns ())\<rparr>"

definition sample_script :: "int option call \<Rightarrow> int call \<Rightarrow> unit call \<Rightarrow> com_script" where
  \<comment> \<open>a platform with a default device whose interface has both mute methods\<close>
  "sample_script init g uninit =
     \<lparr>CoInitializeEx = init, GetSpeakers = Returns True,
      Activate = Returns (Some (sample_iface g)),
      QueryInterface = Returns (Some (sample_iface g)),
      CoUninitialize = uninit\<rparr>"

section \<open>Properties: strings and sample inputs\<close>

lemma ascii_lower_a: "ascii_lower c = 97 \<Longrightarrow> c = 65 \<or> c = 97"
  by (auto simp: ascii_lower_def split: if_splits)

lemma ascii_lower_l: "ascii_lower c = 108 \<Longrightarrow> c = 76 \<or> c = 108"
  by (auto simp: ascii_lower_def split: if_splits)

lemma int_of_str_letter:
  assumes "a = 65 \<or> a = 97" and "is_ascii (a # cs)"
  shows "int_of_str rt (a # cs) = None"
proof -
  have na: "\<not> c_isspace a" "a \<noteq> 43" "a \<noteq> 45" "a \<noteq> 95"
    using assms(1) by (auto simp: c_isspace_def)
  have "strip_sign (dropWhile c_isspace (a # cs)) = (False, a # cs)"
    using na by (simp add: strip_sign_def)
  moreover have "scan_digits 0 (a # cs) [] = Some ([], 0, a # cs)"
    using assms(1) by auto
  ultimately show ?thesis
    unfolding int_of_str_def using na assms(2) by (simp add: Let_def del: scan_digits.simps)
qed

text \<open>
  The eight spellings of \<open>all\<close> in upper and lower case are ASCII, are not numbers for
  \<open>int\<close>, and \<open>lower\<close> maps them to \<open>all\<close>, whatever the Unicode tables are.
\<close>

lemma spelled_all:
  assumes "map ascii_lower s = ascii ''all''"
  shows "is_ascii s" and "int_of_str rt s = None" and "py_lower rt s = ascii ''all''"
proof -
  have al: "ascii ''all'' = [97, 108, 108]" by (simp add: ascii_def)
  from assms obtain a b c where s: "s = [a, b, c]"
    and a: "ascii_lower a = 97" and b: "ascii_lower b = 108" and c: "ascii_lower c = 108"
    unfolding al by (auto simp: map_eq_Cons_conv)
  have abc: "a = 65 \<or> a = 97" "b = 76 \<or> b = 108" "c = 76 \<or> c = 108"
    using a b c by (auto dest: ascii_lower_a ascii_lower_l)
  have "a < 128" "b < 128" "c < 128" using abc by auto
  then show asc: "is_ascii s" by (simp add: s is_ascii_def)
  show "int_of_str rt s = None" using abc(1) asc unfolding s by (rule int_of_str_letter)
  show "py_lower rt s = ascii ''all''" using asc assms by (simp add: py_lower_def)
qed

lemma str_of_int_2: "str_of_int 2 = ascii ''2''"
  by (simp add: str_of_int_def nat_digits.simps ascii_def)

lemma str_of_int_50: "str_of_int 50 = ascii ''50''"
  by (simp add: str_of_int_def nat_digits.simps ascii_def)

lemma sample_resolves: "\<not> executable_missing sample_config on_search_path"
  by (simp add: executable_missing_def sample_config_def on_search_path_def truthy_def ascii_def)

lemma sample_missing: "executable_missing sample_config not_on_search_path"
  by (simp add: executable_missing_def sample_config_def not_on_search_path_def truthy_def)

lemma sample_path: "twinkle_tray_base_path sample_config = ascii ''Twinkle Tray.exe''"
  by (simp add: sample_config_def)

lemma int_of_str_samples:
  "int_of_str sample_runtime (ascii ''2'') = Some 2"
  "int_of_str sample_runtime (ascii ''0'') = Some 0"
  "int_of_str sample_runtime (ascii ''-1'') = Some (- 1)"
  "int_of_str sample_runtime (ascii ''abc'') = None"
  by (simp_all add: int_of_str_def ascii_def is_ascii_def strip_sign_def c_isspace_def
      sample_runtime_def)

section \<open>Properties: command builders\<close>

lemma power_vcp_codes_differ: "vcp_power_on \<noteq> vcp_power_off"
  by (simp add: vcp_power_on_def vcp_power_off_def ascii_def)

text \<open>
  C9. For a positive monitor number the power builder gives, for power-on and for power-off,
  two argument lists of three entries that agree on the executable and on the monitor
  argument and differ in the third entry, the power-state code (\<open>0xD6:1\<close> for on,
  \<open>0xD6:5\<close> for off). When the executable does not resolve neither call gives a list.
\<close>

theorem power_on_off_differ_only_in_code:
  assumes "0 < m"
  shows "(executable_missing cfg w \<longrightarrow>
            fst (get_twinkle_power_command_parts cfg w (PInt m) vcp_power_on) = None
          \<and> fst (get_twinkle_power_command_parts cfg w (PInt m) vcp_power_off) = None)
       \<and> (\<not> executable_missing cfg w \<longrightarrow>
            (\<exists>on off.
               get_twinkle_power_command_parts cfg w (PInt m) vcp_power_on = (Some on, None)
             \<and> get_twinkle_power_command_parts cfg w (PInt m) vcp_power_off = (Some off, None)
             \<and> length on = 3 \<and> length off = 3
             \<and> on ! 0 = off ! 0 \<and> on ! 1 = off ! 1
             \<and> on ! 2 = ascii ''--VCP=0xD6:1'' \<and> off ! 2 = ascii ''--VCP=0xD6:5''
             \<and> on ! 2 \<noteq> off ! 2))"
  using assms
  by (simp add: get_twinkle_power_command_parts_def vcp_power_on_def vcp_power_off_def ascii_def)

theorem power_on_off_differ_only_in_code_witness:
  "(0::int) < 2 \<and> \<not> executable_missing sample_config on_search_path
   \<and> get_twinkle_power_command_parts sample_config on_search_path (PInt 2) vcp_power_on
       = (Some [ascii ''Twinkle Tray.exe'', ascii ''--MonitorNum=2'', ascii ''--VCP=0xD6:1''],
          None)
   \<and> get_twinkle_power_command_parts sample_config on_search_path (PInt 2) vcp_power_off
       = (Some [ascii ''Twinkle Tray.exe'', ascii ''--MonitorNum=2'', ascii ''--VCP=0xD6:5''],
          None)"
proof -
  have pos: "(0::int) < 2" by simp
  show ?thesis
    using power_on_off_differ_only_in_code [OF pos, of sample_config on_search_path]
      sample_resolves
    by (simp add: get_twinkle_power_command_parts_def sample_path str_of_int_2
        vcp_power_on_def vcp_power_off_def ascii_def)
qed

lemma ascii_simps: "ascii [] = []" "ascii (c # cs) = of_char c # ascii cs"
  by (simp_all add: ascii_def)

text \<open>
  C4. The brightness builder, in the order of its checks. With the executable missing it
  returns the executable-not-found error whatever the selector and the level are. Otherwise
  a level that is not an integer from 0 to 100 gives the level error and no argument list.
  Otherwise, for a level \<open>l\<close> in range: a selector that \<open>int\<close> reads as a positive
  number \<open>n\<close> gives the list for monitor \<open>n\<close>; a selector read as 0, and each spelling
  of \<open>all\<close> in upper or lower case, gives the list for all monitors; a selector read as
  a negative number, and a string that is no number and whose lower case is not \<open>all\<close>,
  give a selector error and no argument list.
\<close>

theorem brightness_builder_cases:
  fixes l :: int
  shows
  "(executable_missing cfg w \<longrightarrow>
      get_twinkle_brightness_command_parts rt cfg w sel lvl
        = (None, Some (twinkle_not_found_msg cfg)))
 \<and> (\<not> executable_missing cfg w \<and> (\<forall>i. lvl = PInt i \<longrightarrow> i < 0 \<or> 100 < i) \<longrightarrow>
      get_twinkle_brightness_command_parts rt cfg w sel lvl = (None, Some msg_level_invalid))
 \<and> (\<not> executable_missing cfg w \<and> 0 \<le> l \<and> l \<le> 100 \<longrightarrow>
      (\<forall>n. py_int rt sel = Some n \<and> 0 < n \<longrightarrow>
         get_twinkle_brightness_command_parts rt cfg w sel (PInt l)
           = (Some [twinkle_tray_base_path cfg, ascii ''--MonitorNum='' @ str_of_int n,
                    ascii ''--Set='' @ str_of_int l], None))
    \<and> (py_int rt sel = Some 0 \<longrightarrow>
         get_twinkle_brightness_command_parts rt cfg w sel (PInt l)
           = (Some [twinkle_tray_base_path cfg, ascii ''--AllMonitors'',
                    ascii ''--Set='' @ str_of_int l], None))
    \<and> (\<forall>s. map ascii_lower s = ascii ''all'' \<longrightarrow>
         get_twinkle_brightness_command_parts rt cfg w (PStr s) (PInt l)
           = (Some [twinkle_tray_base_path cfg, ascii ''--AllMonitors'',
                    ascii ''--Set='' @ str_of_int l], None))
    \<and> (\<forall>n. py_int rt sel = Some n \<and> n < 0 \<longrightarrow>
         get_twinkle_brightness_command_parts rt cfg w sel (PInt l)
           = (None, Some msg_monitor_negative))
    \<and> (\<forall>s. int_of_str rt s = None \<and> py_lower rt s \<noteq> ascii ''all'' \<longrightarrow>
         get_twinkle_brightness_command_parts rt cfg w (PStr s) (PInt l)
           = (None, Some (msg_bad_monitor_pre @ s @ msg_bad_monitor_post))))"
proof (intro conjI impI allI)
  assume "executable_missing cfg w"
  then show "get_twinkle_brightness_command_parts rt cfg w sel lvl
      = (None, Some (twinkle_not_found_msg cfg))"
    by (simp add: get_twinkle_brightness_command_parts_def)
next
  assume "\<not> executable_missing cfg w \<and> (\<forall>i. lvl = PInt i \<longrightarrow> i < 0 \<or> 100 < i)"
  then show "get_twinkle_brightness_command_parts rt cfg w sel lvl = (None, Some msg_level_invalid)"
    by (auto simp: get_twinkle_brightness_command_parts_def split: pyval.splits)
next
  fix n
  assume "\<not> executable_missing cfg w \<and> 0 \<le> l \<and> l \<le> 100" "py_int rt sel = Some n \<and> 0 < n"
  then show "get_twinkle_brightness_command_parts rt cfg w sel (PInt l)
      = (Some [twinkle_tray_base_path cfg, ascii ''--MonitorNum='' @ str_of_int n,
               ascii ''--Set='' @ str_of_int l], None)"
    by (simp add: get_twinkle_brightness_command_parts_def)
next
  assume "\<not> executable_missing cfg w \<and> 0 \<le> l \<and> l \<le> 100" "py_int rt sel = Some 0"
  then show "get_twinkle_brightness_command_parts rt cfg w sel (PInt l)
      = (Some [twinkle_tray_base_path cfg, ascii ''--AllMonitors'',
               ascii ''--Set='' @ str_of_int l], None)"
    by (simp add: get_twinkle_brightness_command_parts_def)
next
  fix s
  assume "\<not> executable_missing cfg w \<and> 0 \<le> l \<and> l \<le> 100" "map ascii_lower s = ascii ''all''"
  then show "get_twinkle_brightness_command_parts rt cfg w (PStr s) (PInt l)
      = (Some [twinkle_tray_base_path cfg, ascii ''--AllMonitors'',
               ascii ''--Set='' @ str_of_int l], None)"
    using spelled_all(2,3)[of s rt]
    by (simp add: get_twinkle_brightness_command_parts_def py_int_def py_str_def)
next
  fix n
  assume "\<not> executable_missing cfg w \<and> 0 \<le> l \<and> l \<le> 100" "py_int rt sel = Some n \<and> n < 0"
  then show "get_twinkle_brightness_command_parts rt cfg w sel (PInt l)
      = (None, Some msg_monitor_negative)"
    by (simp add: get_twinkle_brightness_command_parts_def)
next
  fix s
  assume "\<not> executable_missing cfg w \<and> 0 \<le> l \<and> l \<le> 100"
    "int_of_str rt s = None \<and> py_lower rt s \<noteq> ascii ''all''"
  then show "get_twinkle_brightness_command_parts rt cfg w (PStr s) (PInt l)
      = (None, Some (msg_bad_monitor_pre @ s @ msg_bad_monitor_post))"
    by (simp add: get_twinkle_brightness_command_parts_def py_int_def py_str_def)
qed

theorem brightness_builder_cases_witness:
  "get_twinkle_brightness_command_parts sample_runtime sample_config not_on_search_path
      (PStr (ascii ''2'')) (PInt 50)
     = (None, Some (twinkle_not_found_msg sample_config))
 \<and> get_twinkle_brightness_command_parts sample_runtime sample_config on_search_path
      (PStr (ascii ''2'')) (PInt 101)
     = (None, Some msg_level_invalid)
 \<and> get_twinkle_brightness_command_parts sample_runtime sample_config on_search_path
      (PStr (ascii ''2'')) (PInt 50)
     = (Some [ascii ''Twinkle Tray.exe'', ascii ''--MonitorNum=2'', ascii ''--Set=50''], None)
 \<and> get_twinkle_brightness_command_parts sample_runtime sample_config on_search_path
      (PStr (ascii ''0'')) (PInt 50)
     = (Some [ascii ''Twinkle Tray.exe'', ascii ''--AllMonitors'', ascii ''--Set=50''], None)
 \<and> get_twinkle_brightness_command_parts sample_runtime sample_config on_search_path
      (PStr (ascii ''ALL'')) (PInt 50)
     = (Some [ascii ''Twinkle Tray.exe'', ascii ''--AllMonitors'', ascii ''--Set=50''], None)
 \<and> get_twinkle_brightness_command_parts sample_runtime sample_config on_search_path
      (PStr (ascii ''-1'')) (PInt 50)
     = (None, Some msg_monitor_negative)
 \<and> get_twinkle_brightness_command_parts sample_runtime sample_config on_search_path
      (PStr (ascii ''abc'')) (PInt 50)
     = (None, Some (msg_bad_monitor_pre @ ascii ''abc'' @ msg_bad_monitor_post))"
proof -
  have all: "map ascii_lower (ascii ''ALL'') = ascii ''all''"
    by (simp add: ascii_def ascii_lower_def)
  have abc: "py_lower sample_runtime (ascii ''abc'') \<noteq> ascii ''all''"
    by (simp add: py_lower_def is_ascii_def ascii_def ascii_lower_def)
  have lv: "\<forall>i. PInt 101 = PInt i \<longrightarrow> i < 0 \<or> 100 < i" by simp
  note ints = int_of_str_samples
  show ?thesis
    using brightness_builder_cases
            [of sample_config not_on_search_path sample_runtime "PStr (ascii ''2'')" "PInt 50" 50]
          brightness_builder_cases
            [of sample_config on_search_path sample_runtime "PStr (ascii ''2'')" "PInt 101" 50]
          brightness_builder_cases
            [of sample_config on_search_path sample_runtime "PStr (ascii ''0'')" "PInt 50" 50]
          brightness_builder_cases
            [of sample_config on_search_path sample_runtime "PStr (ascii ''-1'')" "PInt 50" 50]
          sample_missing sample_resolves all abc lv ints
    by (simp add: py_int_def sample_path str_of_int_2 str_of_int_50 ascii_simps)
qed

section \<open>Properties: process executor\<close>


lemma sample_popen: "popen (sample_host w r) c f = r"
  by (simp add: sample_host_def)

lemma twinkle_not_powershell:
  "py_lower sample_runtime (ascii ''Twinkle Tray.exe'') \<noteq> ascii ''powershell''"
  by (simp add: py_lower_def is_ascii_def ascii_def ascii_lower_def)

lemma twinkle_flags: "creationflags_for sample_runtime h (ascii ''Twinkle Tray.exe'') = 0"
  using twinkle_not_powershell by (simp add: creationflags_for_def)





lemma sample_granted: "require_api_key sample_config sample_request = Granted"
  by (simp add: require_api_key_def sample_config_def)

lemma sample_which: "which (sample_host w r) = w"
  by (simp add: sample_host_def)

lemma str_of_int_1: "str_of_int 1 = ascii ''1''"
  by (simp add: str_of_int_def nat_digits.simps ascii_def)

lemma sample_power_on_parts:
  "get_twinkle_power_command_parts sample_config on_search_path (PInt 1) vcp_power_on
     = (Some [ascii ''Twinkle Tray.exe'', ascii ''--MonitorNum=1'', ascii ''--VCP=0xD6:1''], None)"
  using sample_resolves
  by (simp add: get_twinkle_power_command_parts_def sample_path str_of_int_1 vcp_power_on_def
      ascii_def)



text \<open>
  C2, as the code has it. \<open>run_command\<close> starts exactly one child for a command that is
  not empty, and passes the no-window flag of the platform only when the first entry of the
  command is, in lower case, \<open>powershell\<close>; for every other executable the creation flags
  are 0.
\<close>

theorem run_command_creationflags:
  "(\<exists>f. hd (snd (run_command rt h (Some (exe # args)))) = Popen (exe # args) f)
 \<and> (\<forall>c f. Popen c f \<in> set (snd (run_command rt h (Some (exe # args)))) \<longrightarrow>
        c = exe # args
      \<and> (py_lower rt exe \<noteq> ascii ''powershell'' \<longrightarrow> f = 0)
      \<and> (py_lower rt exe = ascii ''powershell'' \<longrightarrow>
           f = (case subprocess_CREATE_NO_WINDOW h of Some x \<Rightarrow> x | None \<Rightarrow> 0)))"
  by (auto simp: run_command_def Let_def except_clauses_def timeout_cleanup_def
      creationflags_for_def
      split: popen_result.splits comm_result.splits pyexn.splits exn_class.splits call.splits)

theorem run_command_creationflags_witness:
  "Popen [ascii ''Twinkle Tray.exe'', ascii ''--AllMonitors''] 0
     \<in> set (snd (run_command sample_runtime
                   (sample_host on_search_path (Started (CommReturns [] [] 0)))
                   (Some [ascii ''Twinkle Tray.exe'', ascii ''--AllMonitors''])))
 \<and> py_lower sample_runtime (ascii ''Twinkle Tray.exe'') \<noteq> ascii ''powershell''
 \<and> Popen [ascii ''PowerShell'', ascii ''-Command''] 134217728
     \<in> set (snd (run_command sample_runtime
                   (sample_host on_search_path (Started (CommReturns [] [] 0)))
                   (Some [ascii ''PowerShell'', ascii ''-Command''])))
 \<and> py_lower sample_runtime (ascii ''PowerShell'') = ascii ''powershell''"
proof -
  have ps: "py_lower sample_runtime (ascii ''PowerShell'') = ascii ''powershell''"
    by (simp add: py_lower_def is_ascii_def ascii_def ascii_lower_def)
  have f: "creationflags_for sample_runtime (sample_host on_search_path r) (ascii ''PowerShell'')
             = 134217728" for r
    using ps by (simp add: creationflags_for_def sample_host_def)
  show ?thesis
    using run_command_creationflags
            [of sample_runtime "sample_host on_search_path (Started (CommReturns [] [] 0))"
                "ascii ''Twinkle Tray.exe''" "[ascii ''--AllMonitors'']"]
          run_command_creationflags
            [of sample_runtime "sample_host on_search_path (Started (CommReturns [] [] 0))"
                "ascii ''PowerShell''" "[ascii ''-Command'']"]
          twinkle_not_powershell ps
    by (simp add: run_command_def sample_popen twinkle_flags f Let_def)
qed

text \<open>
  C2 as the specification words it fails for the monitor-control executable: on a Windows host,
  where the no-window flag is \<open>0x08000000\<close>, the power-on request for monitor 1 starts
  \<open>Twinkle Tray.exe\<close> with creation flags 0.
\<close>

theorem monitor_on_creationflags_counterexample:
  "snd (monitor_on_vcp sample_runtime sample_config
          (sample_host on_search_path (Started (CommReturns [] [] 0))) sample_request 1)
     = [Popen [ascii ''Twinkle Tray.exe'', ascii ''--MonitorNum=1'', ascii ''--VCP=0xD6:1''] 0,
        Communicate (Some 15)]
 \<and> subprocess_CREATE_NO_WINDOW (sample_host on_search_path (Started (CommReturns [] [] 0)))
     = Some 134217728"
  by (simp add: monitor_on_vcp_def sample_granted sample_which sample_power_on_parts truthy_def
      run_command_def sample_popen twinkle_flags Let_def after_exit_def)
    (simp add: sample_host_def)

section \<open>Properties: status codes of the monitor endpoints\<close>

text \<open>
  C1, at the failing input. With the executable neither found at start-up nor on the search
  path, the power-on request for monitor 1 is answered with status code 400: the handler
  answers every error of the builder with 400. The same cause detected when the child is
  started (\<open>Popen\<close> raises \<open>FileNotFoundError\<close>) is answered with 500.
\<close>

theorem executable_missing_at_build_time_status:
  "status_code (fst (monitor_on_vcp sample_runtime sample_config
      (sample_host not_on_search_path (PopenRaises (Exn FileNotFoundError []))) sample_request 1))
     = 400
 \<and> status_code (fst (set_monitor_brightness sample_runtime sample_config
      (sample_host not_on_search_path (PopenRaises (Exn FileNotFoundError []))) sample_request
      (ascii ''all'') 50))
     = 400
 \<and> status_code (fst (monitor_on_vcp sample_runtime sample_config
      (sample_host on_search_path (PopenRaises (Exn FileNotFoundError []))) sample_request 1))
     = 500"
proof (intro conjI)
  show "status_code (fst (monitor_on_vcp sample_runtime sample_config
      (sample_host not_on_search_path (PopenRaises (Exn FileNotFoundError []))) sample_request 1))
     = 400"
    using sample_missing
    by (simp add: monitor_on_vcp_def sample_granted sample_which
        get_twinkle_power_command_parts_def truthy_def twinkle_not_found_msg_def
        msg_twinkle_pre_def status_code_def)
  have td: "target_description_of sample_runtime (ascii ''all'') = Inr msg_all_monitors"
    by (simp add: target_description_of_def py_isdigit_def ascii_def)
  show "status_code (fst (set_monitor_brightness sample_runtime sample_config
      (sample_host not_on_search_path (PopenRaises (Exn FileNotFoundError []))) sample_request
      (ascii ''all'') 50))
     = 400"
    using sample_missing
    by (simp add: set_monitor_brightness_def sample_granted sample_which td
        get_twinkle_brightness_command_parts_def truthy_def twinkle_not_found_msg_def
        msg_twinkle_pre_def status_code_def)
  show "status_code (fst (monitor_on_vcp sample_runtime sample_config
      (sample_host on_search_path (PopenRaises (Exn FileNotFoundError []))) sample_request 1))
     = 500"
    by (simp add: monitor_on_vcp_def sample_granted sample_which sample_power_on_parts truthy_def
        run_command_def sample_popen Let_def except_clauses_def status_code_def)
qed

section \<open>Properties: acquisition of the volume control\<close>

lemma volume_except_events: "snd (volume_except e) = [Log LogError]"
  by (cases e) (simp add: volume_except_def)

lemma activate_volume_events:
  "set (snd (activate_volume sc))
     \<subseteq> {CallGetSpeakers, CallActivate, CallQueryInterface, Log LogError}"
proof -
  have ve: "\<And>e r evs. volume_except e = (r, evs) \<Longrightarrow> evs = [Log LogError]"
    using volume_except_events by (metis snd_conv)
  show ?thesis
    by (auto simp: activate_volume_def split: call.splits option.splits prod.splits dest: ve)
qed

lemma com_initialize_events:
  "set (snd (com_initialize rt m sc)) \<subseteq> {CallCoInitializeEx, Log LogError}"
  by (auto simp: com_initialize_def split: call.splits pyexn.splits)

lemma com_initialize_own:
  "fst (com_initialize rt m sc) = ComReady True \<longleftrightarrow>
     pythoncom_loaded m
     \<and> (CoInitializeEx sc = Returns (Some 0) \<or> CoInitializeEx sc = Returns (Some 1))"
  by (auto simp: com_initialize_def split: call.splits pyexn.splits)

lemma com_initialize_own_events:
  "fst (com_initialize rt m sc) = ComReady True \<Longrightarrow>
     snd (com_initialize rt m sc) = [CallCoInitializeEx]"
  by (auto simp: com_initialize_def split: call.splits pyexn.splits if_splits)

lemma com_release_events:
  "com_release m sc b =
     (if b \<and> pythoncom_loaded m
      then CallCoUninitialize # (case CoUninitialize sc of Returns u \<Rightarrow> [] | Raises e \<Rightarrow> [Log LogWarning])
      else [])"
  by (simp add: com_release_def split: call.splits)

lemma get_master_volume_control_events:
  assumes "AudioUtilities_loaded m" and "IAudioEndpointVolume_loaded m"
  shows "snd (get_master_volume_control rt m sc) =
     (case fst (com_initialize rt m sc) of
        ComFailed msg \<Rightarrow> snd (com_initialize rt m sc)
      | ComReady b \<Rightarrow>
          snd (com_initialize rt m sc) @ snd (activate_volume sc) @ com_release m sc b)"
  using assms
  by (simp add: get_master_volume_control_def Let_def split: prod.splits com_init.splits)

lemma get_master_volume_control_result:
  "fst (get_master_volume_control rt m sc) =
     (if \<not> AudioUtilities_loaded m \<or> \<not> IAudioEndpointVolume_loaded m
      then (None, Some msg_pycaw_missing)
      else (case fst (com_initialize rt m sc) of
              ComFailed msg \<Rightarrow> (None, Some msg)
            | ComReady b \<Rightarrow>
                (case fst (activate_volume sc) of
                   (master_volume, error_message) \<Rightarrow>
                     if truthy error_message then (None, error_message)
                     else if master_volume = None then (None, Some msg_no_interface)
                     else (master_volume, None))))"
proof -
  obtain ci evs0 where ci: "com_initialize rt m sc = (ci, evs0)"
    by (cases "com_initialize rt m sc")
  obtain mv er evs1 where av: "activate_volume sc = ((mv, er), evs1)"
    by (cases "activate_volume sc") auto
  show ?thesis
    by (cases ci) (simp_all add: get_master_volume_control_def ci av Let_def)
qed

lemma com_initialize_ignores_release:
  "com_initialize rt m (sc\<lparr>CoUninitialize := u\<rparr>) = com_initialize rt m sc"
  by (simp add: com_initialize_def)

lemma activate_volume_ignores_release:
  "activate_volume (sc\<lparr>CoUninitialize := u\<rparr>) = activate_volume sc"
  by (simp add: activate_volume_def split: call.splits option.splits)

text \<open>
  What the \<open>finally\<close> clause does follows the flag \<open>com_initialized_here\<close>, and the
  flag is set only when \<open>CoInitializeEx\<close> returned the integer 0 or 1. With the flag set,
  whatever happens afterwards (no device, an exception, an interface or none), the calls are
  \<open>CoInitializeEx\<close>, the calls of the acquisition, and \<open>CoUninitialize\<close> exactly once
  as the last call, followed only by the warning line when the release raised. With the flag
  not set the call never releases. The returned pair does not depend on what
  \<open>CoUninitialize\<close> does.
\<close>

lemma release_follows_flag:
  "(AudioUtilities_loaded m \<and> IAudioEndpointVolume_loaded m \<and> pythoncom_loaded m
      \<and> (CoInitializeEx sc = Returns (Some 0) \<or> CoInitializeEx sc = Returns (Some 1)) \<longrightarrow>
      (\<exists>mid. snd (get_master_volume_control rt m sc)
                = [CallCoInitializeEx] @ mid @ [CallCoUninitialize]
                  @ (case CoUninitialize sc of Returns u \<Rightarrow> [] | Raises e \<Rightarrow> [Log LogWarning])
            \<and> CallCoUninitialize \<notin> set mid \<and> CallCoInitializeEx \<notin> set mid))
 \<and> (\<not> (AudioUtilities_loaded m \<and> IAudioEndpointVolume_loaded m \<and> pythoncom_loaded m
         \<and> (CoInitializeEx sc = Returns (Some 0) \<or> CoInitializeEx sc = Returns (Some 1))) \<longrightarrow>
      CallCoUninitialize \<notin> set (snd (get_master_volume_control rt m sc)))
 \<and> fst (get_master_volume_control rt m (sc\<lparr>CoUninitialize := u\<rparr>))
      = fst (get_master_volume_control rt m sc)"
proof (intro conjI impI)
  assume own: "AudioUtilities_loaded m \<and> IAudioEndpointVolume_loaded m \<and> pythoncom_loaded m
      \<and> (CoInitializeEx sc = Returns (Some 0) \<or> CoInitializeEx sc = Returns (Some 1))"
  then have rdy: "fst (com_initialize rt m sc) = ComReady True"
    by (simp add: com_initialize_own)
  have ev: "snd (get_master_volume_control rt m sc)
      = [CallCoInitializeEx] @ snd (activate_volume sc) @ [CallCoUninitialize]
        @ (case CoUninitialize sc of Returns u \<Rightarrow> [] | Raises e \<Rightarrow> [Log LogWarning])"
    using own rdy
    by (simp add: get_master_volume_control_events com_initialize_own_events com_release_events)
  have "CallCoUninitialize \<notin> set (snd (activate_volume sc))"
    "CallCoInitializeEx \<notin> set (snd (activate_volume sc))"
    using activate_volume_events [of sc] by auto
  with ev show "\<exists>mid. snd (get_master_volume_control rt m sc)
                = [CallCoInitializeEx] @ mid @ [CallCoUninitialize]
                  @ (case CoUninitialize sc of Returns u \<Rightarrow> [] | Raises e \<Rightarrow> [Log LogWarning])
            \<and> CallCoUninitialize \<notin> set mid \<and> CallCoInitializeEx \<notin> set mid"
    by blast
next
  assume other: "\<not> (AudioUtilities_loaded m \<and> IAudioEndpointVolume_loaded m \<and> pythoncom_loaded m
         \<and> (CoInitializeEx sc = Returns (Some 0) \<or> CoInitializeEx sc = Returns (Some 1)))"
  show "CallCoUninitialize \<notin> set (snd (get_master_volume_control rt m sc))"
  proof (cases "AudioUtilities_loaded m \<and> IAudioEndpointVolume_loaded m")
    case False
    then show ?thesis by (auto simp: get_master_volume_control_def)
  next
    case True
    with other have nrdy: "fst (com_initialize rt m sc) \<noteq> ComReady True"
      by (simp add: com_initialize_own)
    have a: "CallCoUninitialize \<notin> set (snd (activate_volume sc))"
      using activate_volume_events [of sc] by auto
    have i: "CallCoUninitialize \<notin> set (snd (com_initialize rt m sc))"
      using com_initialize_events [of rt m sc] by auto
    show ?thesis
    proof (cases "fst (com_initialize rt m sc)")
      case (ComFailed msg)
      with True i show ?thesis by (simp add: get_master_volume_control_events)
    next
      case (ComReady b)
      with nrdy have "\<not> b" by simp
      with True ComReady a i show ?thesis
        by (simp add: get_master_volume_control_events com_release_events)
    qed
  qed
next
  show "fst (get_master_volume_control rt m (sc\<lparr>CoUninitialize := u\<rparr>))
      = fst (get_master_volume_control rt m sc)"
    by (simp add: get_master_volume_control_result com_initialize_ignores_release
        activate_volume_ignores_release cong: com_init.case_cong)
qed

lemma sample_script_fields:
  "CoInitializeEx (sample_script i g u) = i"
  "GetSpeakers (sample_script i g u) = Returns True"
  "Activate (sample_script i g u) = Returns (Some (sample_iface g))"
  "CoUninitialize (sample_script i g u) = u"
  by (simp_all add: sample_script_def)

lemma sample_iface_fields:
  "has_SetMute (sample_iface g)" "has_GetMute (sample_iface g)"
  "GetMute (sample_iface g) = g" "SetMute (sample_iface g) v = Returns ()"
  by (simp_all add: sample_iface_def)

lemma sample_modules_fields:
  "pythoncom_loaded sample_modules" "AudioUtilities_loaded sample_modules"
  "IAudioEndpointVolume_loaded sample_modules"
  by (simp_all add: sample_modules_def)

lemma sample_activate:
  "activate_volume (sample_script i g u)
     = ((Some (sample_iface g), None), [CallGetSpeakers, CallActivate])"
  by (simp add: activate_volume_def sample_script_fields sample_iface_fields)

lemma sample_acquire_own:
  "get_master_volume_control rt sample_modules (sample_script (Returns (Some 0)) g u)
     = ((Some (sample_iface g), None),
        [CallCoInitializeEx, CallGetSpeakers, CallActivate, CallCoUninitialize]
        @ (case u of Returns x \<Rightarrow> [] | Raises e \<Rightarrow> [Log LogWarning]))"
  by (simp add: get_master_volume_control_def sample_modules_fields com_initialize_def
      sample_script_fields sample_activate com_release_events truthy_def Let_def)

lemma sample_acquire_none:
  "get_master_volume_control rt sample_modules (sample_script (Returns None) g u)
     = ((Some (sample_iface g), None), [CallCoInitializeEx, CallGetSpeakers, CallActivate])"
  by (simp add: get_master_volume_control_def sample_modules_fields com_initialize_def
      sample_script_fields sample_activate com_release_events truthy_def Let_def)

lemma sample_release_warning:
  "get_master_volume_control sample_runtime sample_modules
     (sample_script (Returns (Some 0)) (Returns 0) (Raises (Exn OtherException [])))
   = ((Some (sample_iface (Returns 0)), None),
      [CallCoInitializeEx, CallGetSpeakers, CallActivate, CallCoUninitialize, Log LogWarning])"
  by (simp add: sample_acquire_own)

text \<open>
  C8, at the failing input. \<open>pythoncom.CoInitializeEx\<close> reports a failure by raising and
  returns \<open>None\<close> when it has initialized COM for the thread. The source compares the
  returned value with 0 and 1, so after that return the flag stays unset: the call has
  performed the initialization, acquires the interface, and returns without
  \<open>CoUninitialize\<close>. Had the value been 0, the same call would have released.
\<close>

theorem com_session_not_released_after_none:
  "get_master_volume_control sample_runtime sample_modules
     (sample_script (Returns None) (Returns 0) (Returns ()))
   = ((Some (sample_iface (Returns 0)), None),
      [CallCoInitializeEx, CallGetSpeakers, CallActivate])
 \<and> CallCoUninitialize
     \<notin> set (snd (get_master_volume_control sample_runtime sample_modules
                    (sample_script (Returns None) (Returns 0) (Returns ()))))
 \<and> get_master_volume_control sample_runtime sample_modules
     (sample_script (Returns (Some 0)) (Returns 0) (Returns ()))
   = ((Some (sample_iface (Returns 0)), None),
      [CallCoInitializeEx, CallGetSpeakers, CallActivate, CallCoUninitialize])"
  by (simp add: sample_acquire_none sample_acquire_own)

theorem com_session_not_released_after_none_witness:
  "snd (get_master_volume_control sample_runtime sample_modules
          (sample_script (Returns None) (Returns 0) (Returns ())))
     = [CallCoInitializeEx, CallGetSpeakers, CallActivate]
 \<and> snd (get_master_volume_control sample_runtime sample_modules
          (sample_script (Returns (Some 0)) (Returns 0) (Returns ())))
     = [CallCoInitializeEx, CallGetSpeakers, CallActivate, CallCoUninitialize]"
  using com_session_not_released_after_none by simp

section \<open>Properties: reading and writing the mute flag\<close>

lemma get_master_volume_control_calls:
  "set (snd (get_master_volume_control rt m sc))
     \<subseteq> {CallCoInitializeEx, CallGetSpeakers, CallActivate, CallQueryInterface,
         CallCoUninitialize, Log LogError, Log LogWarning}"
proof (cases "AudioUtilities_loaded m \<and> IAudioEndpointVolume_loaded m")
  case False
  then show ?thesis by (auto simp: get_master_volume_control_def)
next
  case True
  have r: "set (com_release m sc b) \<subseteq> {CallCoUninitialize, Log LogWarning}" for b
    by (auto simp: com_release_events split: call.splits)
  show ?thesis
  proof (cases "fst (com_initialize rt m sc)")
    case (ComFailed msg)
    with True com_initialize_events [of rt m sc] show ?thesis
      by (auto simp: get_master_volume_control_events)
  next
    case (ComReady b)
    with True com_initialize_events [of rt m sc] activate_volume_events [of sc] r [of b]
    show ?thesis
      by (simp add: get_master_volume_control_events) blast
  qed
qed

lemma acquisition_never_touches_mute:
  "CallSetMute v \<notin> set (snd (get_master_volume_control rt m sc))"
  "CallGetMute \<notin> set (snd (get_master_volume_control rt m sc))"
  using get_master_volume_control_calls [of rt m sc] by auto

lemma get_system_mute_status_never_writes:
  "CallSetMute v \<notin> set (snd (get_system_mute_status rt m sc))"
proof -
  obtain mv er evs where g: "get_master_volume_control rt m sc = ((mv, er), evs)"
    by (cases "get_master_volume_control rt m sc") auto
  have "CallSetMute v \<notin> set evs"
    using acquisition_never_touches_mute(1) [of v rt m sc] by (simp add: g)
  then show ?thesis
    by (auto simp: get_system_mute_status_def g call_GetMute_def
        split: option.splits call.splits pyexn.splits prod.splits if_splits)
qed

lemma get_system_mute_status_read:
  assumes "fst (fst (get_system_mute_status rt m sc)) = Some b"
  shows "CallGetMute \<in> set (snd (get_system_mute_status rt m sc))"
proof -
  obtain mv er evs where g: "get_master_volume_control rt m sc = ((mv, er), evs)"
    by (cases "get_master_volume_control rt m sc") auto
  from assms show ?thesis
    by (auto simp: get_system_mute_status_def g call_GetMute_def
        split: option.splits call.splits pyexn.splits prod.splits if_splits)
qed

lemma set_system_mute_writes:
  assumes "CallSetMute v \<in> set (snd (set_system_mute rt m sc b))"
  shows "v = (if b then 1 else 0)"
proof -
  obtain mv er evs where g: "get_master_volume_control rt m sc = ((mv, er), evs)"
    by (cases "get_master_volume_control rt m sc") auto
  have "CallSetMute v \<notin> set evs"
    using acquisition_never_touches_mute(1) [of v rt m sc] by (simp add: g)
  with assms show ?thesis
    by (auto simp: set_system_mute_def g call_SetMute_def
        split: option.splits call.splits pyexn.splits prod.splits if_splits)
qed

lemma audio_mute_toggle_unfold:
  assumes "require_api_key cfg req = Granted" and "AudioUtilities_loaded m"
  shows "audio_mute_toggle rt cfg m env req =
     (case fst (fst (get_system_mute_status rt m (env 0))) of
        None \<Rightarrow>
          (Json [(''status'', JStr (ascii ''error'')),
                 (''action'', JStr (ascii ''TOGGLE_MUTE'')),
                 (''message'', JStr msg_read_state_fail),
                 (''details'', json_opt (snd (fst (get_system_mute_status rt m (env 0)))))] 500,
           snd (get_system_mute_status rt m (env 0)))
      | Some current_mute_state \<Rightarrow>
          (if fst (fst (set_system_mute rt m (env 1) (\<not> current_mute_state))) then
             Json [(''status'', JStr (ascii ''success'')),
                   (''action'', JStr (ascii ''TOGGLE_MUTE'')),
                   (''audio_muted'', JBool (\<not> current_mute_state)),
                   (''message'', JStr (msg_toggled_pre
                       @ (if \<not> current_mute_state then msg_muted_word else msg_unmuted_word))),
                   (''details'', json_opt
                       (snd (fst (set_system_mute rt m (env 1) (\<not> current_mute_state)))))] 200
           else
             Json [(''status'', JStr (ascii ''error'')),
                   (''action'', JStr (ascii ''TOGGLE_MUTE'')),
                   (''message'', JStr msg_toggle_fail),
                   (''details'', json_opt
                       (snd (fst (set_system_mute rt m (env 1) (\<not> current_mute_state)))))] 500,
           snd (get_system_mute_status rt m (env 0))
           @ snd (set_system_mute rt m (env 1) (\<not> current_mute_state))))"
proof -
  obtain st msg evs where r: "get_system_mute_status rt m (env 0) = ((st, msg), evs)"
    by (cases "get_system_mute_status rt m (env 0)") auto
  show ?thesis
  proof (cases st)
    case None
    with assms r show ?thesis by (simp add: audio_mute_toggle_def)
  next
    case (Some b)
    obtain ok msg' evs' where w: "set_system_mute rt m (env 1) (\<not> b) = ((ok, msg'), evs')"
      by (cases "set_system_mute rt m (env 1) (\<not> b)") auto
    from assms r Some w show ?thesis by (simp add: audio_mute_toggle_def Let_def)
  qed
qed

lemma audio_mute_toggle_quiet:
  assumes "\<not> (require_api_key cfg req = Granted \<and> AudioUtilities_loaded m)"
  shows "snd (audio_mute_toggle rt cfg m env req) = []"
    and "status_code (fst (audio_mute_toggle rt cfg m env req)) \<noteq> 200"
  using assms
  by (auto simp: audio_mute_toggle_def unavailable_def status_code_def require_api_key_def
      split: auth.splits if_splits)

text \<open>
  C7. In the toggle request: when the read of the mute state fails (its first component is
  \<open>None\<close>), the answer is the 500 response that carries the message of the read, and no
  write of the mute flag is among the calls. A write is among the calls only when the read
  returned a state \<open>b\<close>: the calls of the read, with its \<open>GetMute\<close> and no write, come
  first, and the value written is 0 when \<open>b\<close> was muted and 1 when it was not. When the
  answer is 200, its \<open>audio_muted\<close> field is the negation of the state that was read.
\<close>

theorem toggle_writes_only_after_successful_read:
  "(require_api_key cfg req = Granted \<and> AudioUtilities_loaded m
      \<and> fst (fst (get_system_mute_status rt m (env 0))) = None \<longrightarrow>
      audio_mute_toggle rt cfg m env req
        = (Json [(''status'', JStr (ascii ''error'')),
                 (''action'', JStr (ascii ''TOGGLE_MUTE'')),
                 (''message'', JStr msg_read_state_fail),
                 (''details'', json_opt (snd (fst (get_system_mute_status rt m (env 0)))))] 500,
           snd (get_system_mute_status rt m (env 0)))
    \<and> (\<forall>v. CallSetMute v \<notin> set (snd (audio_mute_toggle rt cfg m env req))))
 \<and> (\<forall>v. CallSetMute v \<in> set (snd (audio_mute_toggle rt cfg m env req)) \<longrightarrow>
      (\<exists>b post. fst (fst (get_system_mute_status rt m (env 0))) = Some b
         \<and> v = (if b then 0 else 1)
         \<and> snd (audio_mute_toggle rt cfg m env req)
             = snd (get_system_mute_status rt m (env 0)) @ post
         \<and> CallGetMute \<in> set (snd (get_system_mute_status rt m (env 0)))
         \<and> (\<forall>u. CallSetMute u \<notin> set (snd (get_system_mute_status rt m (env 0))))
         \<and> CallSetMute v \<in> set post))
 \<and> (status_code (fst (audio_mute_toggle rt cfg m env req)) = 200 \<longrightarrow>
      (\<exists>b. fst (fst (get_system_mute_status rt m (env 0))) = Some b
         \<and> json_field ''audio_muted'' (fst (audio_mute_toggle rt cfg m env req))
             = Some (JBool (\<not> b))))"
proof (intro conjI impI allI)
  assume a: "require_api_key cfg req = Granted \<and> AudioUtilities_loaded m
      \<and> fst (fst (get_system_mute_status rt m (env 0))) = None"
  then show eq: "audio_mute_toggle rt cfg m env req
        = (Json [(''status'', JStr (ascii ''error'')),
                 (''action'', JStr (ascii ''TOGGLE_MUTE'')),
                 (''message'', JStr msg_read_state_fail),
                 (''details'', json_opt (snd (fst (get_system_mute_status rt m (env 0)))))] 500,
           snd (get_system_mute_status rt m (env 0)))"
    by (simp add: audio_mute_toggle_unfold)
  fix v
  show "CallSetMute v \<notin> set (snd (audio_mute_toggle rt cfg m env req))"
    using get_system_mute_status_never_writes [of v rt m "env 0"] by (simp add: eq)
next
  fix v
  assume w: "CallSetMute v \<in> set (snd (audio_mute_toggle rt cfg m env req))"
  have "require_api_key cfg req = Granted \<and> AudioUtilities_loaded m"
  proof (rule ccontr)
    assume "\<not> (require_api_key cfg req = Granted \<and> AudioUtilities_loaded m)"
    then have "snd (audio_mute_toggle rt cfg m env req) = []"
      by (rule audio_mute_toggle_quiet(1))
    with w show False by simp
  qed
  then have on: "require_api_key cfg req = Granted" "AudioUtilities_loaded m"
    by simp_all
  have nw: "\<forall>u. CallSetMute u \<notin> set (snd (get_system_mute_status rt m (env 0)))"
    using get_system_mute_status_never_writes by blast
  show "\<exists>b post. fst (fst (get_system_mute_status rt m (env 0))) = Some b
         \<and> v = (if b then 0 else 1)
         \<and> snd (audio_mute_toggle rt cfg m env req)
             = snd (get_system_mute_status rt m (env 0)) @ post
         \<and> CallGetMute \<in> set (snd (get_system_mute_status rt m (env 0)))
         \<and> (\<forall>u. CallSetMute u \<notin> set (snd (get_system_mute_status rt m (env 0))))
         \<and> CallSetMute v \<in> set post"
  proof (cases "fst (fst (get_system_mute_status rt m (env 0)))")
    case None
    with w on nw show ?thesis by (simp add: audio_mute_toggle_unfold)
  next
    case (Some b)
    have ev: "snd (audio_mute_toggle rt cfg m env req)
        = snd (get_system_mute_status rt m (env 0)) @ snd (set_system_mute rt m (env 1) (\<not> b))"
      using on Some by (simp add: audio_mute_toggle_unfold)
    with w nw have inpost: "CallSetMute v \<in> set (snd (set_system_mute rt m (env 1) (\<not> b)))"
      by simp
    then have "v = (if b then 0 else 1)"
      using set_system_mute_writes [of v rt m "env 1" "\<not> b"] by simp
    with Some ev inpost nw get_system_mute_status_read [OF Some] show ?thesis by blast
  qed
next
  assume ok: "status_code (fst (audio_mute_toggle rt cfg m env req)) = 200"
  have "require_api_key cfg req = Granted \<and> AudioUtilities_loaded m"
  proof (rule ccontr)
    assume "\<not> (require_api_key cfg req = Granted \<and> AudioUtilities_loaded m)"
    then have "status_code (fst (audio_mute_toggle rt cfg m env req)) \<noteq> 200"
      by (rule audio_mute_toggle_quiet(2))
    with ok show False by simp
  qed
  then have on: "require_api_key cfg req = Granted" "AudioUtilities_loaded m"
    by simp_all
  show "\<exists>b. fst (fst (get_system_mute_status rt m (env 0))) = Some b
         \<and> json_field ''audio_muted'' (fst (audio_mute_toggle rt cfg m env req))
             = Some (JBool (\<not> b))"
  proof (cases "fst (fst (get_system_mute_status rt m (env 0)))")
    case None
    with ok on show ?thesis by (simp add: audio_mute_toggle_unfold status_code_def)
  next
    case (Some b)
    with ok on show ?thesis
      by (simp add: audio_mute_toggle_unfold status_code_def json_field_def split: if_splits)
  qed
qed

lemma sample_read:
  "get_system_mute_status rt sample_modules (sample_script (Returns (Some 0)) (Returns v) u)
     = ((Some (v \<noteq> 0), Some msg_get_mute_ok),
        [CallCoInitializeEx, CallGetSpeakers, CallActivate, CallCoUninitialize]
        @ (case u of Returns x \<Rightarrow> [] | Raises e \<Rightarrow> [Log LogWarning])
        @ [CallGetMute, Log LogDebug])"
  by (simp add: get_system_mute_status_def sample_acquire_own truthy_def call_GetMute_def
      sample_iface_fields)

lemma sample_read_fails:
  "get_system_mute_status rt sample_modules
     (sample_script (Returns (Some 0)) (Raises (Exn OtherException (ascii ''gone''))) (Returns ()))
     = ((None, Some (msg_get_mute_err_pre @ ascii ''gone'')),
        [CallCoInitializeEx, CallGetSpeakers, CallActivate, CallCoUninitialize,
         CallGetMute, Log LogError])"
  by (simp add: get_system_mute_status_def sample_acquire_own truthy_def call_GetMute_def
      sample_iface_fields)

lemma sample_write:
  "set_system_mute rt sample_modules (sample_script (Returns (Some 0)) g (Returns ())) b
     = ((True, Some (msg_mute_set_pre @ (if b then msg_muted_word else msg_unmuted_word)
                     @ msg_full_stop)),
        [CallCoInitializeEx, CallGetSpeakers, CallActivate, CallCoUninitialize,
         CallSetMute (if b then 1 else 0), Log LogInfo])"
  by (simp add: set_system_mute_def sample_acquire_own truthy_def call_SetMute_def
      sample_iface_fields)

theorem toggle_writes_only_after_successful_read_witness:
  "audio_mute_toggle sample_runtime sample_config sample_modules
     (\<lambda>k. sample_script (Returns (Some 0)) (Raises (Exn OtherException (ascii ''gone'')))
            (Returns ()))
     sample_request
   = (Json [(''status'', JStr (ascii ''error'')),
            (''action'', JStr (ascii ''TOGGLE_MUTE'')),
            (''message'', JStr msg_read_state_fail),
            (''details'', JStr (msg_get_mute_err_pre @ ascii ''gone''))] 500,
      [CallCoInitializeEx, CallGetSpeakers, CallActivate, CallCoUninitialize,
       CallGetMute, Log LogError])
 \<and> audio_mute_toggle sample_runtime sample_config sample_modules
     (\<lambda>k. sample_script (Returns (Some 0)) (Returns 0) (Returns ())) sample_request
   = (Json [(''status'', JStr (ascii ''success'')),
            (''action'', JStr (ascii ''TOGGLE_MUTE'')),
            (''audio_muted'', JBool True),
            (''message'', JStr (msg_toggled_pre @ msg_muted_word)),
            (''details'', JStr (msg_mute_set_pre @ msg_muted_word @ msg_full_stop))] 200,
      [CallCoInitializeEx, CallGetSpeakers, CallActivate, CallCoUninitialize,
       CallGetMute, Log LogDebug,
       CallCoInitializeEx, CallGetSpeakers, CallActivate, CallCoUninitialize,
       CallSetMute 1, Log LogInfo])"
  using toggle_writes_only_after_successful_read
          [of sample_config sample_request sample_modules sample_runtime
              "\<lambda>k. sample_script (Returns (Some 0)) (Raises (Exn OtherException (ascii ''gone'')))
                     (Returns ())"]
        toggle_writes_only_after_successful_read
          [of sample_config sample_request sample_modules sample_runtime
              "\<lambda>k. sample_script (Returns (Some 0)) (Returns 0) (Returns ())"]
  by (simp add: audio_mute_toggle_unfold sample_granted sample_modules_fields sample_read
      sample_read_fails sample_write json_opt_def)

section \<open>Properties: the status endpoint\<close>

lemma audio_status_unfold:
  assumes "require_api_key cfg req = Granted" and "AudioUtilities_loaded m"
  shows "fst (audio_status rt cfg m env req) =
     (case fst (fst (get_system_mute_status rt m (env 0))) of
        Some muted \<Rightarrow>
          Json [(''status'', JStr (ascii ''success'')),
                (''audio_muted'', JBool muted),
                (''message'', JStr msg_status_ok),
                (''details'', json_opt (snd (fst (get_system_mute_status rt m (env 0)))))] 200
      | None \<Rightarrow>
          Json [(''status'', JStr (ascii ''error'')),
                (''message'', JStr msg_status_fail),
                (''details'', json_opt (snd (fst (get_system_mute_status rt m (env 0)))))] 500)"
proof -
  obtain st msg evs where r: "get_system_mute_status rt m (env 0) = ((st, msg), evs)"
    by (cases "get_system_mute_status rt m (env 0)") auto
  from assms show ?thesis by (cases st) (simp_all add: audio_status_def r)
qed

lemma get_system_mute_status_result:
  "fst (get_system_mute_status rt m sc) =
     (case fst (get_master_volume_control rt m sc) of
        (master_volume, error) \<Rightarrow>
          if truthy error then (None, error)
          else (case fst (call_GetMute master_volume) of
                  Returns muted \<Rightarrow> (Some (muted \<noteq> 0), Some msg_get_mute_ok)
                | Raises e \<Rightarrow>
                    (case e of Exn cls text \<Rightarrow> (None, Some (msg_get_mute_err_pre @ text)))))"
proof -
  obtain mv er evs where g: "get_master_volume_control rt m sc = ((mv, er), evs)"
    by (cases "get_master_volume_control rt m sc") auto
  obtain c evs1 where c: "call_GetMute mv = (c, evs1)"
    by (cases "call_GetMute mv")
  show ?thesis
    by (cases c) (simp_all add: get_system_mute_status_def g c split: pyexn.splits)
qed

text \<open>
  C10. The read of the mute state returns \<open>None\<close> as its first component exactly when it
  fails: when the acquisition of the volume control gave an error (the read then returns
  \<open>None\<close> with that error), or when \<open>GetMute\<close> raised (\<open>None\<close> with the text of the
  exception). When \<open>GetMute\<close> returns \<open>v\<close> the read returns the boolean \<open>v \<noteq> 0\<close> with
  the success message, so an unmuted device gives \<open>False\<close> and not \<open>None\<close>. The status
  request tells the two apart: it is answered with 200 and \<open>audio_muted\<close> false for the
  unmuted device, and with 500 exactly when the first component of the read is \<open>None\<close>.
\<close>

theorem audio_status_unmuted_is_success:
  assumes "require_api_key cfg req = Granted" and "AudioUtilities_loaded m"
  shows "(fst (get_master_volume_control rt m (env 0)) = (Some i, None)
            \<and> has_GetMute i \<and> GetMute i = Returns 0 \<longrightarrow>
            fst (get_system_mute_status rt m (env 0)) = (Some False, Some msg_get_mute_ok)
          \<and> fst (audio_status rt cfg m env req)
              = Json [(''status'', JStr (ascii ''success'')),
                      (''audio_muted'', JBool False),
                      (''message'', JStr msg_status_ok),
                      (''details'', JStr msg_get_mute_ok)] 200)
       \<and> (status_code (fst (audio_status rt cfg m env req)) = 500
            \<longleftrightarrow> fst (fst (get_system_mute_status rt m (env 0))) = None)
       \<and> (truthy (snd (fst (get_master_volume_control rt m (env 0)))) \<longrightarrow>
            fst (get_system_mute_status rt m (env 0))
              = (None, snd (fst (get_master_volume_control rt m (env 0)))))
       \<and> (\<forall>cls text.
            fst (get_master_volume_control rt m (env 0)) = (Some i, None)
            \<and> has_GetMute i \<and> GetMute i = Raises (Exn cls text) \<longrightarrow>
            fst (get_system_mute_status rt m (env 0))
              = (None, Some (msg_get_mute_err_pre @ text)))
       \<and> (\<forall>v. fst (get_master_volume_control rt m (env 0)) = (Some i, None)
            \<and> has_GetMute i \<and> GetMute i = Returns v \<longrightarrow>
            fst (get_system_mute_status rt m (env 0))
              = (Some (v \<noteq> 0), Some msg_get_mute_ok))
       \<and> (fst (fst (get_system_mute_status rt m (env 0))) = None \<longleftrightarrow>
            truthy (snd (fst (get_master_volume_control rt m (env 0))))
            \<or> (\<exists>e. fst (call_GetMute (fst (fst (get_master_volume_control rt m (env 0)))))
                      = Raises e))
       \<and> (fst (fst (get_system_mute_status rt m (env 0))) = None \<longrightarrow>
            fst (audio_status rt cfg m env req)
              = Json [(''status'', JStr (ascii ''error'')),
                      (''message'', JStr msg_status_fail),
                      (''details'',
                       json_opt (snd (fst (get_system_mute_status rt m (env 0)))))] 500)"
proof (intro conjI impI allI)
  assume a: "fst (get_master_volume_control rt m (env 0)) = (Some i, None)
            \<and> has_GetMute i \<and> GetMute i = Returns 0"
  then show r: "fst (get_system_mute_status rt m (env 0)) = (Some False, Some msg_get_mute_ok)"
    by (simp add: get_system_mute_status_result truthy_def call_GetMute_def)
  show "fst (audio_status rt cfg m env req)
              = Json [(''status'', JStr (ascii ''success'')),
                      (''audio_muted'', JBool False),
                      (''message'', JStr msg_status_ok),
                      (''details'', JStr msg_get_mute_ok)] 200"
    using assms by (simp add: audio_status_unfold r json_opt_def)
next
  show "status_code (fst (audio_status rt cfg m env req)) = 500
            \<longleftrightarrow> fst (fst (get_system_mute_status rt m (env 0))) = None"
    using assms
    by (cases "fst (fst (get_system_mute_status rt m (env 0)))")
       (simp_all add: audio_status_unfold status_code_def)
next
  assume t: "truthy (snd (fst (get_master_volume_control rt m (env 0))))"
  obtain mv er where g: "fst (get_master_volume_control rt m (env 0)) = (mv, er)"
    by (cases "fst (get_master_volume_control rt m (env 0))")
  from t show "fst (get_system_mute_status rt m (env 0))
              = (None, snd (fst (get_master_volume_control rt m (env 0))))"
    by (simp add: get_system_mute_status_result g)
next
  fix cls what
  assume "fst (get_master_volume_control rt m (env 0)) = (Some i, None)
            \<and> has_GetMute i \<and> GetMute i = Raises (Exn cls what)"
  then show "fst (get_system_mute_status rt m (env 0))
              = (None, Some (msg_get_mute_err_pre @ what))"
    by (simp add: get_system_mute_status_result truthy_def call_GetMute_def)
next
  fix v
  assume "fst (get_master_volume_control rt m (env 0)) = (Some i, None)
            \<and> has_GetMute i \<and> GetMute i = Returns v"
  then show "fst (get_system_mute_status rt m (env 0))
              = (Some (v \<noteq> 0), Some msg_get_mute_ok)"
    by (simp add: get_system_mute_status_result truthy_def call_GetMute_def)
next
  show "fst (fst (get_system_mute_status rt m (env 0))) = None \<longleftrightarrow>
            truthy (snd (fst (get_master_volume_control rt m (env 0))))
            \<or> (\<exists>e. fst (call_GetMute (fst (fst (get_master_volume_control rt m (env 0)))))
                      = Raises e)"
  proof -
    obtain mv er where g: "fst (get_master_volume_control rt m (env 0)) = (mv, er)"
      by (cases "fst (get_master_volume_control rt m (env 0))")
    show ?thesis
      by (cases "fst (call_GetMute mv)")
         (auto simp: get_system_mute_status_result g split: pyexn.splits)
  qed
next
  assume "fst (fst (get_system_mute_status rt m (env 0))) = None"
  then show "fst (audio_status rt cfg m env req)
              = Json [(''status'', JStr (ascii ''error'')),
                      (''message'', JStr msg_status_fail),
                      (''details'',
                       json_opt (snd (fst (get_system_mute_status rt m (env 0)))))] 500"
    using assms by (simp add: audio_status_unfold)
qed

lemma sample_acquire_no_device:
  "get_master_volume_control rt sample_modules
     ((sample_script (Returns (Some 0)) g u)\<lparr>GetSpeakers := Returns False\<rparr>)
   = ((None, Some msg_no_speakers),
      [CallCoInitializeEx, CallGetSpeakers, CallCoUninitialize]
      @ (case u of Returns x \<Rightarrow> [] | Raises e \<Rightarrow> [Log LogWarning]))"
  by (simp add: get_master_volume_control_def sample_modules_fields com_initialize_def
      sample_script_def activate_volume_def com_release_events truthy_def Let_def
      msg_no_speakers_def)

theorem audio_status_unmuted_is_success_witness:
  "require_api_key sample_config sample_request = Granted
 \<and> AudioUtilities_loaded sample_modules
 \<and> fst (get_system_mute_status sample_runtime sample_modules
          (sample_script (Returns (Some 0)) (Returns 0) (Returns ())))
     = (Some False, Some msg_get_mute_ok)
 \<and> fst (audio_status sample_runtime sample_config sample_modules
          (\<lambda>k. sample_script (Returns (Some 0)) (Returns 0) (Returns ())) sample_request)
     = Json [(''status'', JStr (ascii ''success'')),
             (''audio_muted'', JBool False),
             (''message'', JStr msg_status_ok),
             (''details'', JStr msg_get_mute_ok)] 200
 \<and> fst (get_system_mute_status sample_runtime sample_modules
          (sample_script (Returns (Some 0)) (Returns 1) (Returns ())))
     = (Some True, Some msg_get_mute_ok)
 \<and> fst (get_system_mute_status sample_runtime sample_modules
          (sample_script (Returns (Some 0)) (Raises (Exn OtherException (ascii ''gone'')))
             (Returns ())))
     = (None, Some (msg_get_mute_err_pre @ ascii ''gone''))
 \<and> fst (audio_status sample_runtime sample_config sample_modules
          (\<lambda>k. sample_script (Returns (Some 0)) (Raises (Exn OtherException (ascii ''gone'')))
                 (Returns ())) sample_request)
     = Json [(''status'', JStr (ascii ''error'')),
             (''message'', JStr msg_status_fail),
             (''details'', JStr (msg_get_mute_err_pre @ ascii ''gone''))] 500
 \<and> fst (get_system_mute_status sample_runtime sample_modules
          ((sample_script (Returns (Some 0)) (Returns 0) (Returns ()))
             \<lparr>GetSpeakers := Returns False\<rparr>))
     = (None, Some msg_no_speakers)"
proof -
  have t: "truthy (Some msg_no_speakers)"
    by (simp add: truthy_def msg_no_speakers_def)
  show ?thesis
    using audio_status_unmuted_is_success
            [OF sample_granted sample_modules_fields(2),
             of sample_runtime "\<lambda>k. sample_script (Returns (Some 0)) (Returns 0) (Returns ())"
                "sample_iface (Returns 0)"]
          audio_status_unmuted_is_success
            [OF sample_granted sample_modules_fields(2),
             of sample_runtime "\<lambda>k. sample_script (Returns (Some 0)) (Returns 1) (Returns ())"
                "sample_iface (Returns 1)"]
          audio_status_unmuted_is_success
            [OF sample_granted sample_modules_fields(2),
             of sample_runtime
                "\<lambda>k. sample_script (Returns (Some 0))
                       (Raises (Exn OtherException (ascii ''gone''))) (Returns ())"
                "sample_iface (Raises (Exn OtherException (ascii ''gone'')))"]
          audio_status_unmuted_is_success
            [OF sample_granted sample_modules_fields(2),
             of sample_runtime
                "\<lambda>k. (sample_script (Returns (Some 0)) (Returns 0) (Returns ()))
                        \<lparr>GetSpeakers := Returns False\<rparr>"
                "sample_iface (Returns 0)"]
          t
    by (simp add: sample_granted sample_modules_fields sample_acquire_own
        sample_acquire_no_device sample_iface_fields json_opt_def)
qed

section \<open>Properties: the status field of the responses\<close>

lemma monitor_on_vcp_status:
  "is_json (fst (monitor_on_vcp rt cfg h req n)) \<longrightarrow>
     status_field (fst (monitor_on_vcp rt cfg h req n))
       \<in> {Some (JStr (ascii ''success'')), Some (JStr (ascii ''error''))}"
proof -
  obtain parts err where
    b: "get_twinkle_power_command_parts cfg (which h) (PInt n) vcp_power_on = (parts, err)"
    by (cases "get_twinkle_power_command_parts cfg (which h) (PInt n) vcp_power_on")
  obtain res evs where r: "run_command rt h parts = (res, evs)"
    by (cases "run_command rt h parts")
  show ?thesis
    by (cases "require_api_key cfg req")
       (simp_all add: monitor_on_vcp_def b r status_field_def is_json_def
          split: call.splits pyexn.splits)
qed

lemma monitor_off_vcp_status:
  "is_json (fst (monitor_off_vcp rt cfg h req n)) \<longrightarrow>
     status_field (fst (monitor_off_vcp rt cfg h req n))
       \<in> {Some (JStr (ascii ''success'')), Some (JStr (ascii ''error''))}"
proof -
  obtain parts err where
    b: "get_twinkle_power_command_parts cfg (which h) (PInt n) vcp_power_off = (parts, err)"
    by (cases "get_twinkle_power_command_parts cfg (which h) (PInt n) vcp_power_off")
  obtain res evs where r: "run_command rt h parts = (res, evs)"
    by (cases "run_command rt h parts")
  show ?thesis
    by (cases "require_api_key cfg req")
       (simp_all add: monitor_off_vcp_def b r status_field_def is_json_def
          split: call.splits pyexn.splits)
qed

lemma set_monitor_brightness_status:
  "is_json (fst (set_monitor_brightness rt cfg h req s l)) \<longrightarrow>
     status_field (fst (set_monitor_brightness rt cfg h req s l))
       \<in> {Some (JStr (ascii ''success'')), Some (JStr (ascii ''error''))}"
proof -
  obtain parts err where
    b: "get_twinkle_brightness_command_parts rt cfg (which h) (PStr s) (PInt l) = (parts, err)"
    by (cases "get_twinkle_brightness_command_parts rt cfg (which h) (PStr s) (PInt l)")
  obtain res evs where r: "run_command rt h parts = (res, evs)"
    by (cases "run_command rt h parts")
  show ?thesis
    by (cases "require_api_key cfg req"; cases "target_description_of rt s")
       (simp_all add: set_monitor_brightness_def b r status_field_def is_json_def
          split: call.splits pyexn.splits)
qed

lemma audio_mute_status:
  "is_json (fst (audio_mute rt cfg m env req)) \<longrightarrow>
     status_field (fst (audio_mute rt cfg m env req))
       \<in> {Some (JStr (ascii ''success'')), Some (JStr (ascii ''error''))}"
proof -
  obtain ok msg evs where r: "set_system_mute rt m (env 0) True = ((ok, msg), evs)"
    by (cases "set_system_mute rt m (env 0) True") auto
  show ?thesis
    by (cases "require_api_key cfg req")
       (simp_all add: audio_mute_def r status_field_def is_json_def unavailable_def)
qed

lemma audio_unmute_status:
  "is_json (fst (audio_unmute rt cfg m env req)) \<longrightarrow>
     status_field (fst (audio_unmute rt cfg m env req))
       \<in> {Some (JStr (ascii ''success'')), Some (JStr (ascii ''error''))}"
proof -
  obtain ok msg evs where r: "set_system_mute rt m (env 0) False = ((ok, msg), evs)"
    by (cases "set_system_mute rt m (env 0) False") auto
  show ?thesis
    by (cases "require_api_key cfg req")
       (simp_all add: audio_unmute_def r status_field_def is_json_def unavailable_def)
qed

lemma audio_mute_toggle_status:
  "is_json (fst (audio_mute_toggle rt cfg m env req)) \<longrightarrow>
     status_field (fst (audio_mute_toggle rt cfg m env req))
       \<in> {Some (JStr (ascii ''success'')), Some (JStr (ascii ''error''))}"
proof (cases "require_api_key cfg req = Granted \<and> AudioUtilities_loaded m")
  case True
  then show ?thesis
    by (cases "fst (fst (get_system_mute_status rt m (env 0)))")
       (simp_all add: audio_mute_toggle_unfold status_field_def)
next
  case False
  then show ?thesis
    by (cases "require_api_key cfg req")
       (auto simp: audio_mute_toggle_def status_field_def is_json_def unavailable_def)
qed

lemma audio_status_status:
  "is_json (fst (audio_status rt cfg m env req)) \<longrightarrow>
     status_field (fst (audio_status rt cfg m env req))
       \<in> {Some (JStr (ascii ''success'')), Some (JStr (ascii ''error''))}"
proof (cases "require_api_key cfg req = Granted \<and> AudioUtilities_loaded m")
  case True
  then show ?thesis
    by (cases "fst (fst (get_system_mute_status rt m (env 0)))")
       (simp_all add: audio_status_unfold status_field_def)
next
  case False
  then show ?thesis
    by (cases "require_api_key cfg req")
       (auto simp: audio_status_def status_field_def is_json_def unavailable_def)
qed

text \<open>
  C3, as the code has it. Every JSON response of the power, brightness and audio endpoints
  has a \<open>status\<close> field that is \<open>success\<close> or \<open>error\<close>. The placeholder endpoint
  answers a monitor number that is not positive with \<open>error\<close> and a positive one with
  the status \<open>info\<close>.
\<close>

theorem status_field_values:
  "(is_json (fst (monitor_on_vcp rt cfg h req n)) \<longrightarrow>
      status_field (fst (monitor_on_vcp rt cfg h req n))
        \<in> {Some (JStr (ascii ''success'')), Some (JStr (ascii ''error''))})
 \<and> (is_json (fst (monitor_off_vcp rt cfg h req n)) \<longrightarrow>
      status_field (fst (monitor_off_vcp rt cfg h req n))
        \<in> {Some (JStr (ascii ''success'')), Some (JStr (ascii ''error''))})
 \<and> (is_json (fst (set_monitor_brightness rt cfg h req s l)) \<longrightarrow>
      status_field (fst (set_monitor_brightness rt cfg h req s l))
        \<in> {Some (JStr (ascii ''success'')), Some (JStr (ascii ''error''))})
 \<and> (is_json (fst (audio_mute rt cfg m env req)) \<longrightarrow>
      status_field (fst (audio_mute rt cfg m env req))
        \<in> {Some (JStr (ascii ''success'')), Some (JStr (ascii ''error''))})
 \<and> (is_json (fst (audio_unmute rt cfg m env req)) \<longrightarrow>
      status_field (fst (audio_unmute rt cfg m env req))
        \<in> {Some (JStr (ascii ''success'')), Some (JStr (ascii ''error''))})
 \<and> (is_json (fst (audio_mute_toggle rt cfg m env req)) \<longrightarrow>
      status_field (fst (audio_mute_toggle rt cfg m env req))
        \<in> {Some (JStr (ascii ''success'')), Some (JStr (ascii ''error''))})
 \<and> (is_json (fst (audio_status rt cfg m env req)) \<longrightarrow>
      status_field (fst (audio_status rt cfg m env req))
        \<in> {Some (JStr (ascii ''success'')), Some (JStr (ascii ''error''))})
 \<and> (is_json (monitor_status_placeholder cfg req n) \<longrightarrow>
      status_field (monitor_status_placeholder cfg req n)
        = Some (JStr (if n \<le> 0 then ascii ''error'' else ascii ''info'')))"
proof -
  have "is_json (monitor_status_placeholder cfg req n) \<longrightarrow>
      status_field (monitor_status_placeholder cfg req n)
        = Some (JStr (if n \<le> 0 then ascii ''error'' else ascii ''info''))"
    by (cases "require_api_key cfg req")
       (simp_all add: monitor_status_placeholder_def status_field_def is_json_def)
  then show ?thesis
    using monitor_on_vcp_status [of rt cfg h req n] monitor_off_vcp_status [of rt cfg h req n]
      set_monitor_brightness_status [of rt cfg h req s l] audio_mute_status [of rt cfg m env req]
      audio_unmute_status [of rt cfg m env req] audio_mute_toggle_status [of rt cfg m env req]
      audio_status_status [of rt cfg m env req]
    by blast
qed

theorem status_field_values_witness:
  "is_json (fst (monitor_on_vcp sample_runtime sample_config
      (sample_host on_search_path (Started (CommReturns [] [] 0))) sample_request 1))
 \<and> status_field (fst (monitor_on_vcp sample_runtime sample_config
      (sample_host on_search_path (Started (CommReturns [] [] 0))) sample_request 1))
     = Some (JStr (ascii ''success''))
 \<and> is_json (fst (audio_status sample_runtime sample_config sample_modules
      (\<lambda>k. sample_script (Returns (Some 0)) (Returns 0) (Returns ())) sample_request))
 \<and> status_field (fst (audio_status sample_runtime sample_config sample_modules
      (\<lambda>k. sample_script (Returns (Some 0)) (Returns 0) (Returns ())) sample_request))
     = Some (JStr (ascii ''success''))
 \<and> is_json (monitor_status_placeholder sample_config sample_request 0)
 \<and> status_field (monitor_status_placeholder sample_config sample_request 0)
     = Some (JStr (ascii ''error''))"
proof -
  have on: "fst (monitor_on_vcp sample_runtime sample_config
      (sample_host on_search_path (Started (CommReturns [] [] 0))) sample_request 1)
     = Json [(''status'', JStr (ascii ''success'')), (''monitor_num'', JInt 1),
             (''action'', JStr (ascii ''MONITOR_ON_VCP'')), (''message'', JStr msg_on_ok),
             (''details'', JStr msg_command_ok)] 200"
    by (simp add: monitor_on_vcp_def sample_granted sample_which sample_power_on_parts truthy_def
        run_command_def sample_popen Let_def after_exit_def py_strip_def)
  have st: "fst (audio_status sample_runtime sample_config sample_modules
      (\<lambda>k. sample_script (Returns (Some 0)) (Returns 0) (Returns ())) sample_request)
     = Json [(''status'', JStr (ascii ''success'')), (''audio_muted'', JBool False),
             (''message'', JStr msg_status_ok), (''details'', JStr msg_get_mute_ok)] 200"
    by (simp add: audio_status_unfold sample_granted sample_modules_fields sample_read
        json_opt_def)
  have ph: "monitor_status_placeholder sample_config sample_request 0
     = Json [(''status'', JStr (ascii ''error'')), (''message'', JStr msg_monitor_positive)] 400"
    by (simp add: monitor_status_placeholder_def sample_granted)
  show ?thesis
    using status_field_values
            [of sample_runtime sample_config
                "sample_host on_search_path (Started (CommReturns [] [] 0))" sample_request 1
                "ascii ''all''" 50 sample_modules
                "\<lambda>k. sample_script (Returns (Some 0)) (Returns 0) (Returns ())"]
          status_field_values
            [of sample_runtime sample_config
                "sample_host on_search_path (Started (CommReturns [] [] 0))" sample_request 0
                "ascii ''all''" 50 sample_modules
                "\<lambda>k. sample_script (Returns (Some 0)) (Returns 0) (Returns ())"]
    by (simp add: on st ph is_json_def status_field_def)
qed

text \<open>
  C3 as the specification words it fails at the placeholder endpoint: for monitor 1 the response is a
  JSON object whose \<open>status\<close> is \<open>info\<close>, neither \<open>success\<close> nor \<open>error\<close>.
\<close>

theorem placeholder_status_counterexample:
  "monitor_status_placeholder sample_config sample_request 1
     = Json [(''status'', JStr (ascii ''info'')), (''monitor_num'', JInt 1),
             (''message'', JStr msg_placeholder)] 200
 \<and> status_field (monitor_status_placeholder sample_config sample_request 1)
     \<notin> {Some (JStr (ascii ''success'')), Some (JStr (ascii ''error''))}"
  by (simp add: monitor_status_placeholder_def sample_granted status_field_def ascii_def)

end
